theory Spec2Isabelle
  imports Complex_Main
begin

section \<open>Common data of the two selection algorithms\<close>

text \<open>
  The two classes of the repository, \<^verbatim>\<open>SimulatedAnnealingOrder\<close> and
  \<^verbatim>\<open>SelectivePruning\<close>, are embedded shallowly. A \<^verbatim>\<open>double\<close> is a \<^typ>\<open>real\<close>
  (no rounding, no NaN; where the source divides by a value that can be zero the IEEE
  outcome is written out), a \<^verbatim>\<open>size_t\<close> is a \<^typ>\<open>nat\<close> (a subtraction of the
  source that can wrap is \<open>usub\<close>; sums are taken not to overflow), a \<^verbatim>\<open>Vector<T>\<close> is a list. Console output
  (\<^verbatim>\<open>display\<close>) is left out. Everything the algorithms consume from the rest of
  the library (training, error evaluation, the network, the data set, the random
  source and the wall clock) is a record of functions handed to the model.
\<close>

datatype exn =
    LogicError    \<comment> \<open>\<^verbatim>\<open>throw std::logic_error\<close>\<close>
  | OutOfRange    \<comment> \<open>a \<^verbatim>\<open>Vector\<close> subscript outside \<open>[0, size)\<close>\<close>

text \<open>The two \<^verbatim>\<open>StoppingCondition\<close> enumerations, in one type.\<close>

datatype stopping_condition =
    MaximumTime
  | SelectionPerformanceGoal
  | MaximumIterations
  | MinimumInputs
  | AlgorithmFinished
  | MinimumTemperature
  | GeneralizationPerformanceGoal
  | MaximumGeneralizationFailures

text \<open>Members the two classes inherit under the same names.\<close>

record selection_algorithm =
  maximum_iterations_number :: nat
  maximum_time :: real
  tolerance :: real
  reserve_performance_data :: bool
  reserve_parameters_data :: bool

text \<open>The loop variables both \<^verbatim>\<open>perform_..._selection\<close> methods declare, and the
  \<^verbatim>\<open>stopping_condition\<close> of their results.\<close>

record search_state =
  iterations :: nat
  end_flag :: bool
  elapsed_time :: real
  stopping_condition :: "stopping_condition option"

text \<open>\<^verbatim>\<open>difftime(current_time, beginning_time)\<close>: the \<open>k\<close>-th reading of the clock.\<close>

record wall_clock =
  difftime :: "nat \<Rightarrow> real"

definition stop_with :: "stopping_condition option \<Rightarrow> ('a search_state_scheme) \<Rightarrow> ('a search_state_scheme)" where
  "stop_with c s = (case c of None \<Rightarrow> s | Some r \<Rightarrow> s\<lparr>end_flag := True, stopping_condition := Some r\<rparr>)"

section \<open>Simulated annealing order selection\<close>

record simulated_annealing_order = selection_algorithm +
  minimum_order :: nat
  maximum_order :: nat
  generalization_performance_goal :: real
  reserve_generalization_performance_data :: bool
  cooling_rate :: real
  maximum_generalization_failures :: nat
  minimum_temperature :: real

subsection \<open>Setters\<close>

text \<open>The checks of the setters stand between \<^verbatim>\<open>#ifdef __OPENNN_DEBUG__\<close> and
  \<^verbatim>\<open>#endif\<close>: \<open>debug\<close> says whether the macro is defined. A setter returns the
  exception it throws, if any, and the object as the call leaves it.\<close>

definition set_default_order :: "simulated_annealing_order \<Rightarrow> simulated_annealing_order" where
  "set_default_order this =
     this\<lparr>cooling_rate := 1/2, maximum_generalization_failures := 3, minimum_temperature := 1/1000\<rparr>"

definition set_cooling_rate ::
  "bool \<Rightarrow> real \<Rightarrow> simulated_annealing_order \<Rightarrow> exn option \<times> simulated_annealing_order" where
  "set_cooling_rate debug new_cooling_rate this =
     (if debug \<and> new_cooling_rate \<le> 0 then (Some LogicError, this)
      else if debug \<and> new_cooling_rate \<ge> 1 then (Some LogicError, this)
      else (None, this\<lparr>cooling_rate := new_cooling_rate\<rparr>))"

definition set_maximum_generalization_failures ::
  "bool \<Rightarrow> nat \<Rightarrow> simulated_annealing_order \<Rightarrow> exn option \<times> simulated_annealing_order" where
  "set_maximum_generalization_failures debug new_maximum_performance_failures this =
     (if debug \<and> new_maximum_performance_failures \<le> 0 then (Some LogicError, this)
      else (None, this\<lparr>maximum_generalization_failures := new_maximum_performance_failures\<rparr>))"

definition set_minimum_temperature ::
  "bool \<Rightarrow> real \<Rightarrow> simulated_annealing_order \<Rightarrow> exn option \<times> simulated_annealing_order" where
  "set_minimum_temperature debug new_minimum_temperature this =
     (if debug \<and> new_minimum_temperature < 0 then (Some LogicError, this)
      else (None, this\<lparr>minimum_temperature := new_minimum_temperature\<rparr>))"

subsection \<open>The collaborators of the order search\<close>

text \<open>\<open>calculate_performances n\<close> is the pair (training, generalization) of the order
  \<open>n\<close>; \<open>calculate_random_uniform k\<close> is what the \<open>k\<close>-th call of
  \<^verbatim>\<open>calculate_random_uniform(0.,1.)\<close> returns.\<close>

record 'p order_oracle = wall_clock +
  calculate_performances :: "nat \<Rightarrow> real \<times> real"
  get_parameters_order :: "nat \<Rightarrow> 'p"
  calculate_random_uniform :: "nat \<Rightarrow> real"

record 'p annealing_state = search_state +
  optimal_order :: nat
  optimum_performance :: "real \<times> real"
  optimum_parameters :: 'p
  generalization_failures :: nat
  temperature :: real
  draws :: nat  \<comment> \<open>calls of the random source so far\<close>
  performance_data :: "(nat \<times> real) list"
  generalization_performance_data :: "(nat \<times> real) list"
  parameters_data :: "(nat \<times> 'p) list"

subsection \<open>Drawing the candidate order\<close>

text \<open>Subtraction of two \<^verbatim>\<open>size_t\<close> (64 bits): it wraps.\<close>

definition usub :: "nat \<Rightarrow> nat \<Rightarrow> nat" where
  "usub a b = (if b \<le> a then a - b else a + 18446744073709551616 - b)"

text \<open>\<^verbatim>\<open>(size_t)(lower_bound + calculate_random_uniform(0.,1.)*(upper_bound - lower_bound))\<close>\<close>

definition random_order :: "nat \<Rightarrow> nat \<Rightarrow> real \<Rightarrow> nat" where
  "random_order lower_bound upper_bound u =
     nat \<lfloor>real lower_bound + u * real (usub upper_bound lower_bound)\<rfloor>"

definition upper_bound :: "simulated_annealing_order \<Rightarrow> nat \<Rightarrow> nat" where
  "upper_bound this optimal =
     min (maximum_order this) (optimal + usub (maximum_order this) (minimum_order this) div 3)"

definition lower_bound :: "simulated_annealing_order \<Rightarrow> nat \<Rightarrow> nat" where
  "lower_bound this optimal =
     (if optimal \<le> usub (maximum_order this) (minimum_order this) div 3 then minimum_order this
      else optimal - usub (maximum_order this) (minimum_order this) div 3)"

text \<open>The loop \<^verbatim>\<open>while (current_order == optimal_order)\<close>. It has no bound of its own,
  so not leaving it is the value \<open>None\<close>.\<close>

partial_function (option) redraw ::
  "simulated_annealing_order \<Rightarrow> (nat \<Rightarrow> real) \<Rightarrow> nat \<Rightarrow> nat \<Rightarrow> nat \<Rightarrow> nat \<Rightarrow> (nat \<times> nat) option" where
  "redraw this rnd optimal current random_failures n =
     (if current = optimal then
        redraw this rnd optimal
          (if random_failures + 1 \<ge> 5 \<and> optimal \<noteq> minimum_order this then usub optimal 1
           else if random_failures + 1 \<ge> 5 \<and> optimal \<noteq> maximum_order this then optimal + 1
           else random_order (lower_bound this optimal) (upper_bound this optimal) (rnd n))
          (random_failures + 1) (n + 1)
      else Some (current, n))"

declare redraw.simps [code]

text \<open>The candidate of one iteration and the number of draws made so far.\<close>

definition select_order ::
  "simulated_annealing_order \<Rightarrow> (nat \<Rightarrow> real) \<Rightarrow> nat \<Rightarrow> nat \<Rightarrow> (nat \<times> nat) option" where
  "select_order this rnd optimal n =
     redraw this rnd optimal
       (random_order (lower_bound this optimal) (upper_bound this optimal) (rnd n)) 0 (n + 1)"

subsection \<open>Acceptance\<close>

text \<open>\<^verbatim>\<open>fmin(1, exp(-(current - optimum)/temperature))\<close>. At temperature zero the
  quotient of the doubles is \<open>-inf\<close>, \<open>+inf\<close> or NaN, and \<^verbatim>\<open>fmin\<close> drops a NaN.\<close>

definition boltzmann_probability :: "real \<Rightarrow> real \<Rightarrow> real \<Rightarrow> real" where
  "boltzmann_probability current_generalization optimum_generalization t =
     (if t = 0 then (if current_generalization - optimum_generalization > 0 then 0 else 1)
      else min 1 (exp (- (current_generalization - optimum_generalization) / t)))"

text \<open>The condition of the branch commented \<^verbatim>\<open>// Generalization failures\<close>.\<close>

definition generalization_failure ::
  "simulated_annealing_order \<Rightarrow> real \<Rightarrow> real \<Rightarrow> real \<Rightarrow> real \<Rightarrow> nat \<Rightarrow> nat \<Rightarrow> bool" where
  "generalization_failure this boltzmann random_uniform optimum_generalization
       current_generalization current optimal =
     (boltzmann \<le> random_uniform
      \<or> (\<bar>optimum_generalization - current_generalization\<bar> \<le> tolerance this \<and> current \<ge> optimal))"

definition order_stopping_criteria ::
  "simulated_annealing_order \<Rightarrow> real \<Rightarrow> real \<Rightarrow> real \<Rightarrow> nat \<Rightarrow> nat \<Rightarrow> stopping_condition option" where
  "order_stopping_criteria this t elapsed optimum_generalization failures its =
     (if t < minimum_temperature this then Some MinimumTemperature
      else if elapsed > maximum_time this then Some MaximumTime
      else if optimum_generalization < generalization_performance_goal this
        then Some GeneralizationPerformanceGoal
      else if failures \<ge> maximum_generalization_failures this
        then Some MaximumGeneralizationFailures
      else if its \<ge> maximum_iterations_number this then Some MaximumIterations
      else None)"

subsection \<open>\<^verbatim>\<open>perform_order_selection\<close>\<close>

definition order_history ::
  "'p order_oracle \<Rightarrow> simulated_annealing_order \<Rightarrow> nat \<Rightarrow> real \<times> real \<Rightarrow>
   'p annealing_state \<Rightarrow> 'p annealing_state" where
  "order_history orc this order performance s =
     s\<lparr>performance_data :=
          (if reserve_performance_data this
           then performance_data s @ [(order, fst performance)] else performance_data s),
       generalization_performance_data :=
          (if reserve_generalization_performance_data this
           then generalization_performance_data s @ [(order, snd performance)]
           else generalization_performance_data s),
       parameters_data :=
          (if reserve_parameters_data this
           then parameters_data s @ [(order, get_parameters_order orc order)]
           else parameters_data s)\<rparr>"

text \<open>The statements before the loop.\<close>

definition order_initial ::
  "'p order_oracle \<Rightarrow> simulated_annealing_order \<Rightarrow> 'p annealing_state" where
  "order_initial orc this =
     (let optimal = random_order (minimum_order this) (maximum_order this)
                      (calculate_random_uniform orc 0);
          performance = calculate_performances orc optimal
      in order_history orc this optimal performance
           \<lparr>iterations = 0, end_flag = False, elapsed_time = difftime orc 0,
            stopping_condition = None,
            optimal_order = optimal, optimum_performance = performance,
            optimum_parameters = get_parameters_order orc optimal,
            generalization_failures = 0, temperature = snd performance, draws = 1,
            performance_data = [], generalization_performance_data = [],
            parameters_data = []\<rparr>)"

text \<open>The success and the failure branch of the acceptance test.\<close>

definition accept_order ::
  "'p order_oracle \<Rightarrow> bool \<Rightarrow> nat \<Rightarrow> real \<times> real \<Rightarrow> 'p annealing_state \<Rightarrow> 'p annealing_state" where
  "accept_order orc failure current performance s =
     (if failure then s\<lparr>generalization_failures := generalization_failures s + 1\<rparr>
      else s\<lparr>optimal_order := current, optimum_performance := performance,
             optimum_parameters := get_parameters_order orc current\<rparr>)"

text \<open>What follows the acceptance test in the body: the clock, the history, the cooling,
  the iteration counter and the stopping criteria.\<close>

definition order_finish ::
  "'p order_oracle \<Rightarrow> simulated_annealing_order \<Rightarrow> nat \<Rightarrow> real \<times> real \<Rightarrow> nat \<Rightarrow>
   'p annealing_state \<Rightarrow> 'p annealing_state" where
  "order_finish orc this current performance n s =
     (let s1 = order_history orc this current performance
                 (s\<lparr>elapsed_time := difftime orc (iterations s + 1), draws := n\<rparr>);
          s2 = s1\<lparr>temperature := cooling_rate this * temperature s1,
                  iterations := iterations s1 + 1\<rparr>
      in stop_with
           (order_stopping_criteria this (temperature s2) (elapsed_time s2)
              (snd (optimum_performance s2)) (generalization_failures s2) (iterations s2))
           s2)"

text \<open>One pass through the body of \<^verbatim>\<open>while (!end)\<close>. (The local
  \<^verbatim>\<open>current_parameters\<close> the body assigns is never read.)\<close>

definition order_iteration ::
  "'p order_oracle \<Rightarrow> simulated_annealing_order \<Rightarrow> 'p annealing_state \<Rightarrow>
   'p annealing_state option" where
  "order_iteration orc this s =
     (case select_order this (calculate_random_uniform orc) (optimal_order s) (draws s) of
        None \<Rightarrow> None
      | Some (current, n) \<Rightarrow>
          let performance = calculate_performances orc current;
              failure = generalization_failure this
                (boltzmann_probability (snd performance) (snd (optimum_performance s))
                   (temperature s))
                (calculate_random_uniform orc n)
                (snd (optimum_performance s)) (snd performance) current (optimal_order s)
          in Some (order_finish orc this current performance (n + 1)
                     (accept_order orc failure current performance s)))"

function order_loop ::
  "'p order_oracle \<Rightarrow> simulated_annealing_order \<Rightarrow> 'p annealing_state \<Rightarrow>
   'p annealing_state option" where
  "order_loop orc this s =
     (if end_flag s then Some s
      else (case order_iteration orc this s of
              None \<Rightarrow> None
            | Some s' \<Rightarrow> order_loop orc this s'))"
  by pat_completeness auto
termination
proof (relation "measure (\<lambda>(orc, this, s).
          if end_flag s then 0 else Suc (maximum_iterations_number this - iterations s))")
  show "wf (measure (\<lambda>(orc :: 'p order_oracle, this, s :: 'p annealing_state).
          if end_flag s then 0 else Suc (maximum_iterations_number this - iterations s)))"
    by simp
next
  fix orc :: "'p order_oracle" and this and s s' :: "'p annealing_state"
  assume "\<not> end_flag s" and "order_iteration orc this s = Some s'"
  then show "((orc, this, s'), (orc, this, s)) \<in> measure (\<lambda>(orc, this, s).
          if end_flag s then 0 else Suc (maximum_iterations_number this - iterations s))"
    by (auto simp: order_iteration_def order_finish_def order_history_def accept_order_def
          stop_with_def order_stopping_criteria_def Let_def
          split: option.splits prod.splits if_splits)
qed

declare order_loop.simps [simp del]

text \<open>The state the loop ends in holds what the method copies into its results
  (\<^verbatim>\<open>optimal_order\<close>, the final performances, \<^verbatim>\<open>iterations_number\<close>,
  \<^verbatim>\<open>elapsed_time\<close>, \<^verbatim>\<open>stopping_condition\<close>, the histories).\<close>

definition perform_order_selection ::
  "'p order_oracle \<Rightarrow> simulated_annealing_order \<Rightarrow> 'p annealing_state option" where
  "perform_order_selection orc this = order_loop orc this (order_initial orc this)"

text \<open>The state after exactly \<open>k\<close> passes through the body, when the loop makes that
  many: the \<open>k\<close>-fold unrolling of \<^verbatim>\<open>while (!end)\<close>.\<close>

fun order_iterate ::
  "'p order_oracle \<Rightarrow> simulated_annealing_order \<Rightarrow> nat \<Rightarrow> 'p annealing_state \<Rightarrow>
   'p annealing_state option" where
  "order_iterate orc this 0 s = Some s"
| "order_iterate orc this (Suc k) s =
     (if end_flag s then None
      else (case order_iteration orc this s of
              None \<Rightarrow> None
            | Some s' \<Rightarrow> order_iterate orc this k s'))"

section \<open>Selective pruning inputs selection\<close>

record selective_pruning = selection_algorithm +
  selection_performance_goal :: real
  reserve_selection_performance_data :: bool
  minimum_inputs_number :: nat
  maximum_selection_failures :: nat

subsection \<open>Setters\<close>

definition set_minimum_inputs_number ::
  "bool \<Rightarrow> nat \<Rightarrow> selective_pruning \<Rightarrow> exn option \<times> selective_pruning" where
  "set_minimum_inputs_number debug new_minimum_inputs_number this =
     (if debug \<and> new_minimum_inputs_number \<le> 0 then (Some LogicError, this)
      else (None, this\<lparr>minimum_inputs_number := new_minimum_inputs_number\<rparr>))"

definition set_maximum_selection_failures ::
  "bool \<Rightarrow> nat \<Rightarrow> selective_pruning \<Rightarrow> exn option \<times> selective_pruning" where
  "set_maximum_selection_failures debug new_maximum_performance_failures this =
     (if debug \<and> new_maximum_performance_failures \<le> 0 then (Some LogicError, this)
      else (None, this\<lparr>maximum_selection_failures := new_maximum_performance_failures\<rparr>))"

subsection \<open>The collaborators of the pruning search\<close>

text \<open>\<open>'w\<close> is the state of everything behind \<^verbatim>\<open>training_strategy_pointer\<close>: the
  neural network, the data set and its variables. \<open>'p\<close> is a vector of parameters.
  \<open>set_unused k\<close> stands for the three statements
  \<^verbatim>\<open>original_index = get_input_index(original_uses, k);
  current_uses[original_index] = Variables::Unused; variables->set_uses(current_uses);\<close>\<close>

record ('w, 'p) pruning_oracle = wall_clock +
  count_inputs_number :: "'w \<Rightarrow> nat"
  perform_model_evaluation :: "bool list \<Rightarrow> 'w \<Rightarrow> (real \<times> real) \<times> 'w"
  arrange_parameters :: "'w \<Rightarrow> 'p"
  set_parameters :: "'p \<Rightarrow> 'w \<Rightarrow> 'w"
  prune_input :: "nat \<Rightarrow> 'w \<Rightarrow> 'w"
  grow_input :: "'w \<Rightarrow> 'w"
  calculate_selection_error :: "'w \<Rightarrow> real"
  calculate_performance :: "'w \<Rightarrow> real"
  set_unused :: "nat \<Rightarrow> 'w \<Rightarrow> 'w"
  get_parameters_inputs :: "bool list \<Rightarrow> 'w \<Rightarrow> 'p"

record ('w, 'p) pruning_state = search_state +
  world :: 'w
  current_inputs :: "bool list"
  error_ratios :: "real list"
  final :: "real \<times> real"
  current_training_performance :: real
  current_selection_performance :: real
  inputs_data :: "bool list list"
  training_performance_data :: "real list"  \<comment> \<open>\<^verbatim>\<open>results->performance_data\<close>\<close>
  selection_performance_data :: "real list"
  pruning_parameters_data :: "'p list"  \<comment> \<open>\<^verbatim>\<open>results->parameters_data\<close>\<close>

subsection \<open>Vector operations\<close>

text \<open>The mark \<^verbatim>\<open>1e20\<close> of the table \<^verbatim>\<open>error_ratios\<close>.\<close>

definition sentinel :: real where
  "sentinel = 100000000000000000000"

text \<open>Modelled from the spec: \<^verbatim>\<open>Vector::count_occurrences\<close> (the vector class is not
  among the sources): the number of entries equal to the value.\<close>

definition count_occurrences :: "'a list \<Rightarrow> 'a \<Rightarrow> nat" where
  "count_occurrences v x = length (filter (\<lambda>y. y = x) v)"

text \<open>Modelled from the spec: \<^verbatim>\<open>Vector::calculate_minimal_index\<close> (the vector class is
  not among the sources): the position with minimal value, the table scanned left to
  right and the first minimum found winning. It reads the first entry, so an empty
  vector is a subscript out of range.\<close>

definition calculate_minimal_index :: "real list \<Rightarrow> exn + nat" where
  "calculate_minimal_index v =
     (if v = [] then Inl OutOfRange
      else Inr (fold (\<lambda>i minimal_index. if v ! i < v ! minimal_index then i else minimal_index)
                  [1..<length v] 0))"

subsection \<open>The evaluation pass\<close>

text \<open>\<^verbatim>\<open>while(error_ratios[index] == 1e20) index++;\<close>\<close>

function skip_sentinels :: "real list \<Rightarrow> nat \<Rightarrow> exn + nat" where
  "skip_sentinels ratios index =
     (if length ratios \<le> index then Inl OutOfRange
      else if ratios ! index = sentinel then skip_sentinels ratios (index + 1)
      else Inr index)"
  by pat_completeness auto
termination
  by (relation "measure (\<lambda>(ratios, index). length ratios - index)") auto

declare skip_sentinels.simps [simp del]

text \<open>The body of \<^verbatim>\<open>for (size_t i = 0; i < current_inputs_number; i++)\<close>, on
  \<^verbatim>\<open>index\<close>, \<^verbatim>\<open>error_ratios\<close> and the collaborators' state.\<close>

definition evaluate_input ::
  "('w, 'p) pruning_oracle \<Rightarrow> 'p \<Rightarrow> nat \<Rightarrow> nat \<times> real list \<times> 'w \<Rightarrow> exn + nat \<times> real list \<times> 'w" where
  "evaluate_input orc current_parameters i st =
     (case st of (index, ratios, w) \<Rightarrow>
        if length ratios \<le> i + index then Inl OutOfRange
        else if length ratios \<le> i + (if ratios ! (i + index) = sentinel then index + 1 else index)
          then Inl OutOfRange
        else Inr (if ratios ! (i + index) = sentinel then index + 1 else index,
                  ratios[i + (if ratios ! (i + index) = sentinel then index + 1 else index) :=
                           calculate_selection_error orc (prune_input orc i w)],
                  set_parameters orc current_parameters (grow_input orc (prune_input orc i w))))"

definition evaluate_step ::
  "('w, 'p) pruning_oracle \<Rightarrow> 'p \<Rightarrow> nat \<Rightarrow> exn + nat \<times> real list \<times> 'w \<Rightarrow> exn + nat \<times> real list \<times> 'w" where
  "evaluate_step orc current_parameters i r =
     (case r of Inl e \<Rightarrow> Inl e | Inr st \<Rightarrow> evaluate_input orc current_parameters i st)"

text \<open>From the top of the outer loop's body to the end of the \<^verbatim>\<open>for\<close> loop.\<close>

definition evaluate_inputs ::
  "('w, 'p) pruning_oracle \<Rightarrow> ('w, 'p) pruning_state \<Rightarrow> exn + nat \<times> real list \<times> 'w" where
  "evaluate_inputs orc s =
     (case skip_sentinels (error_ratios s) 0 of
        Inl e \<Rightarrow> Inl e
      | Inr index \<Rightarrow>
          fold (evaluate_step orc (arrange_parameters orc (world s)))
            [0..<count_occurrences (current_inputs s) True]
            (Inr (index, error_ratios s, world s)))"

subsection \<open>Pruning the best input\<close>

text \<open>\<^verbatim>\<open>index = best_ratio_index; for (i < best_ratio_index) if (error_ratios[i] == 1e20) index--;\<close>\<close>

definition network_index :: "real list \<Rightarrow> nat \<Rightarrow> nat" where
  "network_index ratios best_ratio_index =
     fold (\<lambda>i index. if ratios ! i = sentinel then index - 1 else index)
       [0..<best_ratio_index] best_ratio_index"

text \<open>The statement \<^verbatim>\<open>if (error_ratios[best_ratio_index] < current_selection_performance)\<close>.\<close>

definition prune_best ::
  "('w, 'p) pruning_oracle \<Rightarrow> real \<Rightarrow> real list \<Rightarrow> nat \<Rightarrow> bool list \<times> 'w \<Rightarrow> bool list \<times> 'w" where
  "prune_best orc selection ratios best_ratio_index st =
     (if ratios ! best_ratio_index < selection
      then ((fst st)[best_ratio_index := False],
            prune_input orc (network_index ratios best_ratio_index)
              (set_unused orc best_ratio_index (snd st)))
      else st)"

definition pruning_stopping_criteria ::
  "selective_pruning \<Rightarrow> real \<Rightarrow> real \<Rightarrow> nat \<Rightarrow> nat \<Rightarrow> real \<Rightarrow> real \<Rightarrow> stopping_condition option" where
  "pruning_stopping_criteria this elapsed final1 its inputs best_error selection =
     (if elapsed \<ge> maximum_time this then Some MaximumTime
      else if final1 < selection_performance_goal this then Some SelectionPerformanceGoal
      else if its \<ge> maximum_iterations_number this then Some MaximumIterations
      else if inputs \<le> minimum_inputs_number this then Some MinimumInputs
      else if inputs = 1 \<or> best_error \<ge> selection then Some AlgorithmFinished
      else None)"

subsection \<open>\<^verbatim>\<open>perform_inputs_selection\<close>\<close>

definition pruning_history ::
  "selective_pruning \<Rightarrow> 'p \<Rightarrow> ('w, 'p) pruning_state \<Rightarrow> ('w, 'p) pruning_state" where
  "pruning_history this history_row s =
     s\<lparr>inputs_data := inputs_data s @ [current_inputs s],
       training_performance_data :=
          (if reserve_performance_data this
           then training_performance_data s @ [current_training_performance s]
           else training_performance_data s),
       selection_performance_data :=
          (if reserve_selection_performance_data this
           then selection_performance_data s @ [current_selection_performance s]
           else selection_performance_data s),
       pruning_parameters_data :=
          (if reserve_parameters_data this
           then pruning_parameters_data s @ [history_row] else pruning_parameters_data s)\<rparr>"

text \<open>The statements before the loop. (\<^verbatim>\<open>elapsed_time\<close> is assigned in the loop only; it
  starts as 0 here.)\<close>

definition pruning_initial ::
  "('w, 'p) pruning_oracle \<Rightarrow> selective_pruning \<Rightarrow> 'w \<Rightarrow> ('w, 'p) pruning_state" where
  "pruning_initial orc this w =
     (let inputs = replicate (count_inputs_number orc w) True;
          evaluation = perform_model_evaluation orc inputs w
      in pruning_history this (arrange_parameters orc (snd evaluation))
           \<lparr>iterations = 0, end_flag = False, elapsed_time = 0, stopping_condition = None,
            world = snd evaluation, current_inputs = inputs,
            error_ratios = replicate (count_inputs_number orc w) 0,
            final = fst evaluation,
            current_training_performance = fst (fst evaluation),
            current_selection_performance = snd (fst evaluation),
            inputs_data = [], training_performance_data = [],
            selection_performance_data = [], pruning_parameters_data = []\<rparr>)"

text \<open>The body after the evaluation pass, given the table and the collaborators' state
  the pass left and the index of the minimal entry.\<close>

definition pruning_finish ::
  "('w, 'p) pruning_oracle \<Rightarrow> selective_pruning \<Rightarrow> real list \<Rightarrow> 'w \<Rightarrow> nat \<Rightarrow>
   ('w, 'p) pruning_state \<Rightarrow> ('w, 'p) pruning_state" where
  "pruning_finish orc this ratios w best_ratio_index s =
     (let pruned = prune_best orc (current_selection_performance s) ratios best_ratio_index
                     (current_inputs s, w);
          s1 = s\<lparr>world := snd pruned, current_inputs := fst pruned,
                 current_training_performance := calculate_performance orc (snd pruned),
                 current_selection_performance := calculate_selection_error orc (snd pruned),
                 error_ratios := ratios[best_ratio_index := sentinel],
                 elapsed_time := difftime orc (iterations s + 1),
                 iterations := iterations s + 1\<rparr>;
          s2 = pruning_history this (get_parameters_inputs orc (fst pruned) (snd pruned)) s1
      in stop_with
           (pruning_stopping_criteria this (elapsed_time s2) (snd (final s2)) (iterations s2)
              (count_occurrences (current_inputs s2) True) (ratios ! best_ratio_index)
              (current_selection_performance s2))
           s2)"

text \<open>One pass through the body of \<^verbatim>\<open>while(!end)\<close>.\<close>

definition pruning_iteration ::
  "('w, 'p) pruning_oracle \<Rightarrow> selective_pruning \<Rightarrow> ('w, 'p) pruning_state \<Rightarrow>
   exn + ('w, 'p) pruning_state" where
  "pruning_iteration orc this s =
     (case evaluate_inputs orc s of
        Inl e \<Rightarrow> Inl e
      | Inr (index, ratios, w) \<Rightarrow>
          (case calculate_minimal_index ratios of
             Inl e \<Rightarrow> Inl e
           | Inr best_ratio_index \<Rightarrow> Inr (pruning_finish orc this ratios w best_ratio_index s)))"

function pruning_loop ::
  "('w, 'p) pruning_oracle \<Rightarrow> selective_pruning \<Rightarrow> ('w, 'p) pruning_state \<Rightarrow>
   exn + ('w, 'p) pruning_state" where
  "pruning_loop orc this s =
     (if end_flag s then Inr s
      else (case pruning_iteration orc this s of
              Inl e \<Rightarrow> Inl e
            | Inr s' \<Rightarrow> pruning_loop orc this s'))"
  by pat_completeness auto
termination
proof (relation "measure (\<lambda>(orc, this, s).
          if end_flag s then 0 else Suc (maximum_iterations_number this - iterations s))")
  show "wf (measure (\<lambda>(orc :: ('w, 'p) pruning_oracle, this, s :: ('w, 'p) pruning_state).
          if end_flag s then 0 else Suc (maximum_iterations_number this - iterations s)))"
    by simp
next
  fix orc :: "('w, 'p) pruning_oracle" and this and s s' :: "('w, 'p) pruning_state"
  assume "\<not> end_flag s" and "pruning_iteration orc this s = Inr s'"
  then show "((orc, this, s'), (orc, this, s)) \<in> measure (\<lambda>(orc, this, s).
          if end_flag s then 0 else Suc (maximum_iterations_number this - iterations s))"
    by (auto simp: pruning_iteration_def pruning_finish_def pruning_history_def
          stop_with_def pruning_stopping_criteria_def Let_def
          split: sum.splits prod.splits if_splits)
qed

declare pruning_loop.simps [simp del]

text \<open>The loop of the method, from the initial evaluation. The state it ends in holds
  what the method copies into its results (\<^verbatim>\<open>optimal_inputs\<close>, the final performances,
  \<^verbatim>\<open>iterations_number\<close>, \<^verbatim>\<open>stopping_condition\<close>, the histories); the statements after
  the loop, which write the uses and the scaling layer back, are not modelled.\<close>

definition perform_inputs_selection ::
  "('w, 'p) pruning_oracle \<Rightarrow> selective_pruning \<Rightarrow> 'w \<Rightarrow> exn + ('w, 'p) pruning_state" where
  "perform_inputs_selection orc this w = pruning_loop orc this (pruning_initial orc this w)"

text \<open>The state after \<open>k\<close> passes through the body, or the state the loop ends in
  when it makes fewer.\<close>

fun pruning_iterate ::
  "('w, 'p) pruning_oracle \<Rightarrow> selective_pruning \<Rightarrow> nat \<Rightarrow> ('w, 'p) pruning_state \<Rightarrow>
   exn + ('w, 'p) pruning_state" where
  "pruning_iterate orc this 0 s = Inr s"
| "pruning_iterate orc this (Suc k) s =
     (if end_flag s then Inr s
      else (case pruning_iteration orc this s of
              Inl e \<Rightarrow> Inl e
            | Inr s' \<Rightarrow> pruning_iterate orc this k s'))"

section \<open>Concrete collaborators\<close>

text \<open>Small collaborators on which the two methods are run. The order oracle returns
  the same uniform draw \<open>u\<close> at every call and takes the performances of an order from
  a table \<open>f\<close>; the parameters of an order are the order itself.\<close>

definition toy_order_oracle :: "real \<Rightarrow> (nat \<Rightarrow> real \<times> real) \<Rightarrow> nat order_oracle" where
  "toy_order_oracle u f =
     \<lparr>difftime = (\<lambda>k. real k), calculate_performances = f,
      get_parameters_order = (\<lambda>n. n), calculate_random_uniform = (\<lambda>k. u)\<rparr>"

definition toy_annealing :: "nat \<Rightarrow> nat \<Rightarrow> nat \<Rightarrow> simulated_annealing_order" where
  "toy_annealing lo hi its =
     \<lparr>maximum_iterations_number = its, maximum_time = 1000, tolerance = 1/100,
      reserve_performance_data = True, reserve_parameters_data = False,
      minimum_order = lo, maximum_order = hi, generalization_performance_goal = 0,
      reserve_generalization_performance_data = True, cooling_rate = 1/2,
      maximum_generalization_failures = 3, minimum_temperature = 1/1000\<rparr>"

text \<open>The pruning oracle: a network is the list of the original inputs it still has,
  which is also its parameter vector; the data set is the list of the inputs marked
  unused. Growing an input appends a fresh one, and setting the parameters of the
  snapshot gives the inputs of the snapshot back. The selection error of a network is
  the sum of the weights of its inputs, plus \<open>delta\<close> for every input the data set has
  marked unused; the initial evaluation reports \<open>evaluation\<close>.\<close>

record toy_world =
  live :: "nat list"
  unused :: "nat list"

definition toy_error :: "real list \<Rightarrow> real \<Rightarrow> toy_world \<Rightarrow> real" where
  "toy_error weights delta w =
     sum_list (map (\<lambda>i. weights ! i) (live w)) + delta * real (length (unused w))"

definition toy_oracle ::
  "real \<times> real \<Rightarrow> real list \<Rightarrow> real \<Rightarrow> (toy_world, nat list) pruning_oracle" where
  "toy_oracle evaluation weights delta =
     \<lparr>difftime = (\<lambda>k. real k),
      count_inputs_number = (\<lambda>w. length (live w)),
      perform_model_evaluation = (\<lambda>inputs w. (evaluation, w)),
      arrange_parameters = live,
      set_parameters = (\<lambda>p w. w\<lparr>live := p\<rparr>),
      prune_input = (\<lambda>i w. w\<lparr>live := take i (live w) @ drop (Suc i) (live w)\<rparr>),
      grow_input = (\<lambda>w. w\<lparr>live := live w @ [0]\<rparr>),
      calculate_selection_error = toy_error weights delta,
      calculate_performance = toy_error weights delta,
      set_unused = (\<lambda>k w. w\<lparr>unused := k # unused w\<rparr>),
      get_parameters_inputs = (\<lambda>inputs w. live w)\<rparr>"

definition toy_pruning :: "nat \<Rightarrow> real \<Rightarrow> selective_pruning" where
  "toy_pruning its goal =
     \<lparr>maximum_iterations_number = its, maximum_time = 1000, tolerance = 1/100,
      reserve_performance_data = False, reserve_parameters_data = False,
      selection_performance_goal = goal, reserve_selection_performance_data = True,
      minimum_inputs_number = 1, maximum_selection_failures = 3\<rparr>"

section \<open>Properties of the order search\<close>

lemma usub_pred_neq: "usub optimal 1 \<noteq> optimal" "usub optimal (Suc 0) \<noteq> optimal"
  by (auto simp: usub_def)

lemma redraw_returns:
  assumes "minimum_order this \<noteq> maximum_order this"
  shows "\<exists>c m. redraw this rnd optimal current rf n = Some (c, m) \<and> c \<noteq> optimal"
proof (induction "4 - rf" arbitrary: rf current n)
  case 0
  then have rf: "rf + 1 \<ge> 5" by simp
  show ?case
  proof (cases "current = optimal")
    case False
    then show ?thesis by (subst redraw.simps) simp
  next
    case True
    show ?thesis
      using True rf assms
      by (subst redraw.simps, subst redraw.simps) (auto simp: usub_pred_neq)
  qed
next
  case (Suc k)
  show ?case
  proof (cases "current = optimal")
    case False
    then show ?thesis by (subst redraw.simps) simp
  next
    case True
    have "k = 4 - (rf + 1)" using Suc.hyps(2) by simp
    from Suc.hyps(1)[OF this] True show ?thesis
      by (subst redraw.simps) simp
  qed
qed

lemma select_order_returns:
  "minimum_order this \<noteq> maximum_order this \<Longrightarrow>
   \<exists>c m. select_order this rnd optimal n = Some (c, m) \<and> c \<noteq> optimal"
  unfolding select_order_def by (rule redraw_returns)

lemma order_iteration_returns:
  "minimum_order this \<noteq> maximum_order this \<Longrightarrow> \<exists>s'. order_iteration orc this s = Some s'"
  using select_order_returns[of this "calculate_random_uniform orc" "optimal_order s" "draws s"]
  by (auto simp: order_iteration_def Let_def)

lemma order_history_fields [simp]:
  "temperature (order_history orc this c p s) = temperature s"
  "iterations (order_history orc this c p s) = iterations s"
  "end_flag (order_history orc this c p s) = end_flag s"
  "elapsed_time (order_history orc this c p s) = elapsed_time s"
  "stopping_condition (order_history orc this c p s) = stopping_condition s"
  "optimal_order (order_history orc this c p s) = optimal_order s"
  "optimum_performance (order_history orc this c p s) = optimum_performance s"
  "optimum_parameters (order_history orc this c p s) = optimum_parameters s"
  "generalization_failures (order_history orc this c p s) = generalization_failures s"
  "draws (order_history orc this c p s) = draws s"
  by (simp_all add: order_history_def)

lemma stop_with_fields [simp]:
  "iterations (stop_with c s) = iterations s"
  "elapsed_time (stop_with c s) = elapsed_time s"
  "end_flag (stop_with c s) = (c \<noteq> None \<or> end_flag s)"
  "stopping_condition (stop_with c s) = (case c of None \<Rightarrow> stopping_condition s | Some r \<Rightarrow> Some r)"
  by (simp_all add: stop_with_def split: option.splits)

lemma stop_with_more [simp]:
  "search_state.more (stop_with c s) = search_state.more s"
  by (simp add: stop_with_def split: option.splits)

lemma stop_with_annealing_fields [simp]:
  "temperature (stop_with c s) = temperature s"
  "optimal_order (stop_with c s) = optimal_order s"
  "optimum_performance (stop_with c s) = optimum_performance s"
  "optimum_parameters (stop_with c s) = optimum_parameters s"
  "generalization_failures (stop_with c s) = generalization_failures s"
  "draws (stop_with c s) = draws s"
  by (simp_all add: stop_with_def split: option.splits)

lemma order_finish_fields:
  "temperature (order_finish orc this c p n s) = cooling_rate this * temperature s"
  "iterations (order_finish orc this c p n s) = iterations s + 1"
  "elapsed_time (order_finish orc this c p n s) = difftime orc (iterations s + 1)"
  "optimal_order (order_finish orc this c p n s) = optimal_order s"
  "optimum_performance (order_finish orc this c p n s) = optimum_performance s"
  "optimum_parameters (order_finish orc this c p n s) = optimum_parameters s"
  "generalization_failures (order_finish orc this c p n s) = generalization_failures s"
  "draws (order_finish orc this c p n s) = n"
  by (simp_all add: order_finish_def Let_def)

lemma order_finish_stop:
  "end_flag (order_finish orc this c p n s) =
     (order_stopping_criteria this (cooling_rate this * temperature s)
        (difftime orc (iterations s + 1)) (snd (optimum_performance s))
        (generalization_failures s) (iterations s + 1) \<noteq> None \<or> end_flag s)"
  "stopping_condition (order_finish orc this c p n s) =
     (case order_stopping_criteria this (cooling_rate this * temperature s)
        (difftime orc (iterations s + 1)) (snd (optimum_performance s))
        (generalization_failures s) (iterations s + 1) of
        None \<Rightarrow> stopping_condition s | Some r \<Rightarrow> Some r)"
  by (simp_all add: order_finish_def Let_def split: option.splits)

lemma accept_order_fields:
  "temperature (accept_order orc b c p s) = temperature s"
  "iterations (accept_order orc b c p s) = iterations s"
  "end_flag (accept_order orc b c p s) = end_flag s"
  "stopping_condition (accept_order orc b c p s) = stopping_condition s"
  "generalization_failures (accept_order orc b c p s) = generalization_failures s + (if b then 1 else 0)"
  "optimal_order (accept_order orc b c p s) = (if b then optimal_order s else c)"
  "optimum_performance (accept_order orc b c p s) = (if b then optimum_performance s else p)"
  "optimum_parameters (accept_order orc b c p s) = (if b then optimum_parameters s else get_parameters_order orc c)"
  by (simp_all add: accept_order_def)

lemma order_iteration_Some:
  assumes "order_iteration orc this s = Some s'"
  obtains current n where
    "select_order this (calculate_random_uniform orc) (optimal_order s) (draws s) = Some (current, n)"
    "s' = order_finish orc this current (calculate_performances orc current) (n + 1)
       (accept_order orc
          (generalization_failure this
             (boltzmann_probability (snd (calculate_performances orc current))
                (snd (optimum_performance s)) (temperature s))
             (calculate_random_uniform orc n) (snd (optimum_performance s))
             (snd (calculate_performances orc current)) current (optimal_order s))
          current (calculate_performances orc current) s)"
  using assms by (auto simp: order_iteration_def Let_def split: option.splits prod.splits)

lemma order_iteration_basic:
  assumes "order_iteration orc this s = Some s'"
  shows "temperature s' = cooling_rate this * temperature s"
    and "iterations s' = iterations s + 1"
    and "generalization_failures s \<le> generalization_failures s'"
  using assms
  by (auto elim!: order_iteration_Some simp: order_finish_fields accept_order_fields)

lemma order_stopping_first:
  "t < minimum_temperature this \<Longrightarrow> order_stopping_criteria this t e g f i = Some MinimumTemperature"
  by (simp add: order_stopping_criteria_def)

lemma order_iteration_minimum_temperature:
  assumes "order_iteration orc this s = Some s'" and "temperature s' < minimum_temperature this"
  shows "end_flag s' \<and> stopping_condition s' = Some MinimumTemperature"
  using assms
  by (auto elim!: order_iteration_Some
      simp: order_finish_fields order_finish_stop accept_order_fields order_stopping_first)

lemma order_iterate_temperature:
  "order_iterate orc this k s0 = Some s \<Longrightarrow>
     temperature s = temperature s0 * cooling_rate this ^ k \<and> iterations s = iterations s0 + k
     \<and> generalization_failures s0 \<le> generalization_failures s"
proof (induction k arbitrary: s0)
  case 0
  then show ?case by simp
next
  case (Suc k)
  then obtain s1 where s1: "order_iteration orc this s0 = Some s1"
    and rest: "order_iterate orc this k s1 = Some s"
    by (auto split: if_splits option.splits)
  from Suc.IH[OF rest] order_iteration_basic[OF s1] show ?case
    by (simp add: mult.assoc)
qed

lemma order_initial_fields:
  "temperature (order_initial orc this) = snd (calculate_performances orc (optimal_order (order_initial orc this)))"
  "iterations (order_initial orc this) = 0"
  "end_flag (order_initial orc this) = False"
  "generalization_failures (order_initial orc this) = 0"
  "optimal_order (order_initial orc this) = random_order (minimum_order this) (maximum_order this) (calculate_random_uniform orc 0)"
  by (simp_all add: order_initial_def Let_def)

text \<open>Claim C5. The temperature starts as the generalization error of the first order
  evaluated. After \<open>k\<close> completed passes through the body it is that value times
  \<open>cooling_rate ^ k\<close>, whatever the acceptance tests decided. Every further pass
  multiplies it by \<open>cooling_rate\<close> once; when the initial temperature is positive and
  the cooling rate lies in \<open>(0,1)\<close> the pass lowers it strictly. A pass that leaves it below
  \<open>minimum_temperature\<close> sets \<open>end\<close> with the reason \<open>MinimumTemperature\<close>, and the
  loop returns that state.\<close>

theorem temperature_schedule:
  assumes "order_iterate orc this k (order_initial orc this) = Some s"
  shows "temperature (order_initial orc this)
           = snd (calculate_performances orc (optimal_order (order_initial orc this)))
       \<and> iterations s = k
       \<and> temperature s = temperature (order_initial orc this) * cooling_rate this ^ k
       \<and> (\<forall>s'. order_iteration orc this s = Some s' \<longrightarrow>
             temperature s' = cooling_rate this * temperature s
           \<and> (0 < temperature (order_initial orc this) \<and> 0 < cooling_rate this
                \<and> cooling_rate this < 1 \<longrightarrow> temperature s' < temperature s)
           \<and> (temperature s' < minimum_temperature this \<longrightarrow>
                end_flag s' \<and> stopping_condition s' = Some MinimumTemperature
                \<and> order_loop orc this s' = Some s'))"
proof -
  note it = order_iterate_temperature[OF assms]
  have t: "temperature s = temperature (order_initial orc this) * cooling_rate this ^ k"
    using it by simp
  have "temperature s' = cooling_rate this * temperature s
      \<and> (0 < temperature (order_initial orc this) \<and> 0 < cooling_rate this
           \<and> cooling_rate this < 1 \<longrightarrow> temperature s' < temperature s)
      \<and> (temperature s' < minimum_temperature this \<longrightarrow>
           end_flag s' \<and> stopping_condition s' = Some MinimumTemperature
           \<and> order_loop orc this s' = Some s')"
    if step: "order_iteration orc this s = Some s'" for s'
  proof (intro conjI impI)
    show c: "temperature s' = cooling_rate this * temperature s"
      by (rule order_iteration_basic(1)[OF step])
    show "temperature s' < temperature s"
      if "0 < temperature (order_initial orc this) \<and> 0 < cooling_rate this \<and> cooling_rate this < 1"
    proof -
      from that have "0 < temperature s" by (simp add: t)
      with that show ?thesis by (simp add: c)
    qed
    assume m: "temperature s' < minimum_temperature this"
    from order_iteration_minimum_temperature[OF step m]
    show "end_flag s'" and "stopping_condition s' = Some MinimumTemperature" by simp_all
    then show "order_loop orc this s' = Some s'" by (simp add: order_loop.simps)
  qed
  then show ?thesis
    using it by (simp add: order_initial_fields)
qed


lemma boltzmann_probability_formula:
  "t \<noteq> 0 \<Longrightarrow> boltzmann_probability c opt t = min 1 (exp (- (c - opt) / t))"
  by (simp add: boltzmann_probability_def)

text \<open>Claim C2. In every pass through the body the candidate is accepted (it becomes
  the optimal order and its performances and parameters the optimum ones, the failure
  counter unchanged) exactly when the fresh uniform draw is strictly below the Boltzmann
  probability and it is not the case that the candidate's generalization error is within
  \<open>tolerance\<close> of the optimum's while the candidate order is at least the optimal one.
  Otherwise the optimum is kept and the failure counter grows by one. At a temperature
  other than zero the Boltzmann probability is \<open>min 1 (exp (- (candidate - optimum) /
  temperature))\<close>.\<close>

theorem acceptance_rule:
  assumes "order_iteration orc this s = Some s'"
  shows "\<exists>current n.
      select_order this (calculate_random_uniform orc) (optimal_order s) (draws s) = Some (current, n)
    \<and> (if calculate_random_uniform orc n
            < boltzmann_probability (snd (calculate_performances orc current))
                (snd (optimum_performance s)) (temperature s)
          \<and> \<not> (\<bar>snd (calculate_performances orc current) - snd (optimum_performance s)\<bar>
                  \<le> tolerance this \<and> optimal_order s \<le> current)
        then optimal_order s' = current
           \<and> optimum_performance s' = calculate_performances orc current
           \<and> optimum_parameters s' = get_parameters_order orc current
           \<and> generalization_failures s' = generalization_failures s
        else optimal_order s' = optimal_order s
           \<and> optimum_performance s' = optimum_performance s
           \<and> optimum_parameters s' = optimum_parameters s
           \<and> generalization_failures s' = generalization_failures s + 1)
    \<and> (temperature s \<noteq> 0 \<longrightarrow>
         boltzmann_probability (snd (calculate_performances orc current))
           (snd (optimum_performance s)) (temperature s)
         = min 1 (exp (- (snd (calculate_performances orc current) - snd (optimum_performance s))
                        / temperature s)))"
proof -
  from assms obtain current n where
    sel: "select_order this (calculate_random_uniform orc) (optimal_order s) (draws s) = Some (current, n)"
    and s': "s' = order_finish orc this current (calculate_performances orc current) (n + 1)
       (accept_order orc
          (generalization_failure this
             (boltzmann_probability (snd (calculate_performances orc current))
                (snd (optimum_performance s)) (temperature s))
             (calculate_random_uniform orc n) (snd (optimum_performance s))
             (snd (calculate_performances orc current)) current (optimal_order s))
          current (calculate_performances orc current) s)"
    by (rule order_iteration_Some)
  have "\<bar>snd (optimum_performance s) - snd (calculate_performances orc current)\<bar>
       = \<bar>snd (calculate_performances orc current) - snd (optimum_performance s)\<bar>"
    by (rule abs_minus_commute)
  then show ?thesis
    using sel
    by (auto simp: s' order_finish_fields accept_order_fields generalization_failure_def
          boltzmann_probability_formula not_le not_less)
qed

lemma order_stopping_failures:
  "\<lbrakk>\<not> t < minimum_temperature this; \<not> e > maximum_time this;
    \<not> g < generalization_performance_goal this; maximum_generalization_failures this \<le> f\<rbrakk>
   \<Longrightarrow> order_stopping_criteria this t e g f i = Some MaximumGeneralizationFailures"
  by (simp add: order_stopping_criteria_def)


lemma order_iteration_stopping:
  assumes "order_iteration orc this s = Some s'" and "\<not> end_flag s"
  shows "end_flag s' =
           (order_stopping_criteria this (temperature s') (elapsed_time s')
              (snd (optimum_performance s')) (generalization_failures s') (iterations s') \<noteq> None)"
    and "stopping_condition s' =
           (case order_stopping_criteria this (temperature s') (elapsed_time s')
              (snd (optimum_performance s')) (generalization_failures s') (iterations s') of
              None \<Rightarrow> stopping_condition s | Some r \<Rightarrow> Some r)"
  using assms
  by (auto elim!: order_iteration_Some
      simp: order_finish_fields order_finish_stop accept_order_fields cong: option.case_cong)

text \<open>Claim C6. The failure counter never decreases over the passes of the loop; a pass
  adds one to it when the candidate is rejected and leaves it as it is when the candidate
  is accepted. When, after a pass, none of the temperature, time and performance-goal
  criteria holds and the counter has reached \<open>maximum_generalization_failures\<close>, the pass
  sets \<open>end\<close> with the reason \<open>MaximumGeneralizationFailures\<close> and the loop returns that
  state.\<close>

theorem generalization_failures_cumulative:
  assumes "order_iterate orc this k s0 = Some s" and "\<not> end_flag s"
    and "order_iteration orc this s = Some s'"
  shows "generalization_failures s0 \<le> generalization_failures s
    \<and> (\<exists>current n.
          select_order this (calculate_random_uniform orc) (optimal_order s) (draws s)
            = Some (current, n)
        \<and> generalization_failures s' = generalization_failures s +
            (if generalization_failure this
                  (boltzmann_probability (snd (calculate_performances orc current))
                     (snd (optimum_performance s)) (temperature s))
                  (calculate_random_uniform orc n) (snd (optimum_performance s))
                  (snd (calculate_performances orc current)) current (optimal_order s)
             then 1 else 0))
    \<and> (\<not> temperature s' < minimum_temperature this \<and> \<not> elapsed_time s' > maximum_time this
        \<and> \<not> snd (optimum_performance s') < generalization_performance_goal this
        \<and> maximum_generalization_failures this \<le> generalization_failures s'
        \<longrightarrow> end_flag s' \<and> stopping_condition s' = Some MaximumGeneralizationFailures
            \<and> order_loop orc this s' = Some s')"
proof (intro conjI impI)
  show "generalization_failures s0 \<le> generalization_failures s"
    using order_iterate_temperature[OF assms(1)] by simp
  show "\<exists>current n.
          select_order this (calculate_random_uniform orc) (optimal_order s) (draws s)
            = Some (current, n)
        \<and> generalization_failures s' = generalization_failures s +
            (if generalization_failure this
                  (boltzmann_probability (snd (calculate_performances orc current))
                     (snd (optimum_performance s)) (temperature s))
                  (calculate_random_uniform orc n) (snd (optimum_performance s))
                  (snd (calculate_performances orc current)) current (optimal_order s)
             then 1 else 0)"
    using assms(3)
    by (elim order_iteration_Some) (simp add: order_finish_fields accept_order_fields)
  assume "\<not> temperature s' < minimum_temperature this \<and> \<not> elapsed_time s' > maximum_time this
        \<and> \<not> snd (optimum_performance s') < generalization_performance_goal this
        \<and> maximum_generalization_failures this \<le> generalization_failures s'"
  then have "order_stopping_criteria this (temperature s') (elapsed_time s')
      (snd (optimum_performance s')) (generalization_failures s') (iterations s')
      = Some MaximumGeneralizationFailures"
    by (simp add: order_stopping_failures)
  with order_iteration_stopping[OF assms(3) assms(2)]
  show "end_flag s'" and "stopping_condition s' = Some MaximumGeneralizationFailures"
    by simp_all
  then show "order_loop orc this s' = Some s'" by (simp add: order_loop.simps)
qed


text \<open>When the two bounds coincide every draw is the optimal order and no candidate is
  forced, so the redraw loop does not end.\<close>

lemma random_order_same: "random_order a a u = a"
  by (simp add: random_order_def usub_def)

lemma bounds_degenerate:
  assumes "optimal = minimum_order this" "optimal = maximum_order this"
  shows "lower_bound this optimal = optimal" "upper_bound this optimal = optimal"
  using assms by (auto simp: lower_bound_def upper_bound_def usub_def)

lemma redraw_Some_differs:
  assumes "redraw this rnd optimal current rf n = Some y"
  shows "optimal = minimum_order this \<and> optimal = maximum_order this \<longrightarrow> current \<noteq> optimal"
proof (rule redraw.raw_induct[where P = "\<lambda>this rnd optimal current rf n y.
          optimal = minimum_order this \<and> optimal = maximum_order this \<longrightarrow> current \<noteq> optimal",
        OF _ assms], goal_cases)
  case (1 redraw' this rnd optimal current rf n y)
  show ?case
  proof (intro impI notI)
    assume deg: "optimal = minimum_order this \<and> optimal = maximum_order this"
      and eq: "current = optimal"
    have lo: "lower_bound this optimal = optimal" and up: "upper_bound this optimal = optimal"
      using deg by (simp_all add: bounds_degenerate)
    have next_current:
      "(if 5 \<le> rf + 1 \<and> optimal \<noteq> minimum_order this then usub optimal 1
        else if 5 \<le> rf + 1 \<and> optimal \<noteq> maximum_order this then optimal + 1
        else random_order (lower_bound this optimal) (upper_bound this optimal) (rnd n))
       = optimal"
      unfolding lo up random_order_same using deg by auto
    from 1(2) eq have "redraw' this rnd optimal optimal (rf + 1) (n + 1) = Some y"
      unfolding next_current by simp
    from 1(1)[OF this] deg show False by simp
  qed
qed

lemma select_order_degenerate:
  assumes "optimal = minimum_order this" "optimal = maximum_order this"
  shows "select_order this rnd optimal n = None"
proof (cases "select_order this rnd optimal n")
  case None
  then show ?thesis .
next
  case (Some y)
  then have "redraw this rnd optimal optimal 0 (n + 1) = Some y"
    using assms by (simp add: select_order_def bounds_degenerate random_order_same)
  from redraw_Some_differs[OF this] assms show ?thesis by simp
qed

lemma perform_order_selection_degenerate:
  assumes "minimum_order this = maximum_order this"
  shows "perform_order_selection orc this = None"
proof -
  have opt: "optimal_order (order_initial orc this) = minimum_order this"
    using assms by (simp add: order_initial_fields random_order_same)
  have "order_iteration orc this (order_initial orc this) = None"
    using assms
    by (simp add: order_iteration_def opt select_order_degenerate)
  then show ?thesis
    by (simp add: perform_order_selection_def order_loop.simps order_initial_fields)
qed

subsection \<open>Runs of the order search on the concrete collaborators\<close>

lemmas order_eval = order_iteration_def order_finish_def order_history_def accept_order_def
  generalization_failure_def boltzmann_probability_def order_stopping_criteria_def stop_with_def
  select_order_def redraw.simps lower_bound_def upper_bound_def random_order_def usub_def
  toy_order_oracle_def toy_annealing_def Let_def

lemma toy_reject_initial:
  "order_initial (toy_order_oracle (3/4) (\<lambda>n. (1, 1))) (toy_annealing 2 11 10)
   = \<lparr>iterations = 0, end_flag = False, elapsed_time = 0, stopping_condition = None,
      optimal_order = 8, optimum_performance = (1, 1), optimum_parameters = 8,
      generalization_failures = 0, temperature = 1, draws = 1,
      performance_data = [(8, 1)], generalization_performance_data = [(8, 1)],
      parameters_data = []\<rparr>"
  by (simp add: order_initial_def order_history_def toy_order_oracle_def toy_annealing_def
        random_order_def usub_def Let_def)

lemma toy_reject_1:
  "order_iteration (toy_order_oracle (3/4) (\<lambda>n. (1, 1))) (toy_annealing 2 11 10)
     \<lparr>iterations = 0, end_flag = False, elapsed_time = 0, stopping_condition = None,
      optimal_order = 8, optimum_performance = (1, 1), optimum_parameters = 8,
      generalization_failures = 0, temperature = 1, draws = 1,
      performance_data = [(8, 1)], generalization_performance_data = [(8, 1)],
      parameters_data = []\<rparr>
   = Some \<lparr>iterations = 1, end_flag = False, elapsed_time = 1, stopping_condition = None,
      optimal_order = 8, optimum_performance = (1, 1), optimum_parameters = 8,
      generalization_failures = 1, temperature = 1/2, draws = 3,
      performance_data = [(8, 1), (9, 1)], generalization_performance_data = [(8, 1), (9, 1)],
      parameters_data = []\<rparr>"
  by (simp add: order_eval)

lemma toy_reject_2:
  "order_iteration (toy_order_oracle (3/4) (\<lambda>n. (1, 1))) (toy_annealing 2 11 10)
     \<lparr>iterations = 1, end_flag = False, elapsed_time = 1, stopping_condition = None,
      optimal_order = 8, optimum_performance = (1, 1), optimum_parameters = 8,
      generalization_failures = 1, temperature = 1/2, draws = 3,
      performance_data = [(8, 1), (9, 1)], generalization_performance_data = [(8, 1), (9, 1)],
      parameters_data = []\<rparr>
   = Some \<lparr>iterations = 2, end_flag = False, elapsed_time = 2, stopping_condition = None,
      optimal_order = 8, optimum_performance = (1, 1), optimum_parameters = 8,
      generalization_failures = 2, temperature = 1/4, draws = 5,
      performance_data = [(8, 1), (9, 1), (9, 1)],
      generalization_performance_data = [(8, 1), (9, 1), (9, 1)],
      parameters_data = []\<rparr>"
  by (simp add: order_eval)

lemma toy_reject_3:
  "order_iteration (toy_order_oracle (3/4) (\<lambda>n. (1, 1))) (toy_annealing 2 11 10)
     \<lparr>iterations = 2, end_flag = False, elapsed_time = 2, stopping_condition = None,
      optimal_order = 8, optimum_performance = (1, 1), optimum_parameters = 8,
      generalization_failures = 2, temperature = 1/4, draws = 5,
      performance_data = [(8, 1), (9, 1), (9, 1)],
      generalization_performance_data = [(8, 1), (9, 1), (9, 1)],
      parameters_data = []\<rparr>
   = Some \<lparr>iterations = 3, end_flag = True, elapsed_time = 3,
      stopping_condition = Some MaximumGeneralizationFailures,
      optimal_order = 8, optimum_performance = (1, 1), optimum_parameters = 8,
      generalization_failures = 3, temperature = 1/8, draws = 7,
      performance_data = [(8, 1), (9, 1), (9, 1), (9, 1)],
      generalization_performance_data = [(8, 1), (9, 1), (9, 1), (9, 1)],
      parameters_data = []\<rparr>"
  by (simp add: order_eval)

lemma toy_initial:
  "order_initial (toy_order_oracle (1/2) (\<lambda>n. (real n, real n))) (toy_annealing 2 11 10)
   = \<lparr>iterations = 0, end_flag = False, elapsed_time = 0, stopping_condition = None,
      optimal_order = 6, optimum_performance = (6, 6), optimum_parameters = 6,
      generalization_failures = 0, temperature = 6, draws = 1,
      performance_data = [(6, 6)], generalization_performance_data = [(6, 6)],
      parameters_data = []\<rparr>"
  by (simp add: order_initial_def order_history_def toy_order_oracle_def toy_annealing_def
        random_order_def usub_def Let_def)

lemma toy_select:
  "select_order (toy_annealing 2 11 10) (\<lambda>k. 1/2) 6 1 = Some (5, 7)"
  by (simp add: select_order_def redraw.simps lower_bound_def upper_bound_def random_order_def
        usub_def toy_annealing_def)

theorem temperature_schedule_witness:
  "\<exists>s s'. order_iterate (toy_order_oracle (1/2) (\<lambda>n. (real n, real n))) (toy_annealing 2 11 10) 1
            (order_initial (toy_order_oracle (1/2) (\<lambda>n. (real n, real n))) (toy_annealing 2 11 10))
          = Some s
        \<and> order_iteration (toy_order_oracle (1/2) (\<lambda>n. (real n, real n))) (toy_annealing 2 11 10) s
          = Some s'
        \<and> iterations s = 1 \<and> temperature s = 3 \<and> temperature s' = 3/2 \<and> temperature s' < temperature s"
proof -
  let ?orc = "toy_order_oracle (1/2) (\<lambda>n. (real n, real n))"
  let ?cfg = "toy_annealing 2 11 10"
  have ne: "minimum_order ?cfg \<noteq> maximum_order ?cfg" by (simp add: toy_annealing_def)
  obtain s where s: "order_iteration ?orc ?cfg (order_initial ?orc ?cfg) = Some s"
    using order_iteration_returns[OF ne] by blast
  then have it: "order_iterate ?orc ?cfg 1 (order_initial ?orc ?cfg) = Some s"
    by (simp add: order_initial_fields)
  obtain s' where s': "order_iteration ?orc ?cfg s = Some s'"
    using order_iteration_returns[OF ne] by blast
  have c: "cooling_rate ?cfg = 1/2" by (simp add: toy_annealing_def)
  have t0: "temperature (order_initial ?orc ?cfg) = 6" unfolding toy_initial by simp
  from temperature_schedule[OF it] s' have
    "iterations s = 1 \<and> temperature s = 3 \<and> temperature s' = 3/2 \<and> temperature s' < temperature s"
    by (simp add: c t0)
  with it s' show ?thesis by blast
qed

theorem acceptance_rule_witness:
  "\<exists>s'. order_iteration (toy_order_oracle (1/2) (\<lambda>n. (real n, real n))) (toy_annealing 2 11 10)
           (order_initial (toy_order_oracle (1/2) (\<lambda>n. (real n, real n))) (toy_annealing 2 11 10))
         = Some s'
       \<and> optimal_order s' = 5 \<and> optimum_performance s' = (5, 5) \<and> optimum_parameters s' = 5
       \<and> generalization_failures s' = 0"
proof -
  let ?orc = "toy_order_oracle (1/2) (\<lambda>n. (real n, real n))"
  let ?cfg = "toy_annealing 2 11 10"
  have ne: "minimum_order ?cfg \<noteq> maximum_order ?cfg" by (simp add: toy_annealing_def)
  obtain s' where s': "order_iteration ?orc ?cfg (order_initial ?orc ?cfg) = Some s'"
    using order_iteration_returns[OF ne] by blast
  have rnd: "calculate_random_uniform ?orc = (\<lambda>k. 1/2)"
    and perf: "calculate_performances ?orc = (\<lambda>n. (real n, real n))"
    and par: "get_parameters_order ?orc = (\<lambda>n. n)"
    by (simp_all add: toy_order_oracle_def)
  have tol: "tolerance ?cfg = 1/100" by (simp add: toy_annealing_def)
  have b: "boltzmann_probability 5 6 6 = 1" by (simp add: boltzmann_probability_def)
  from acceptance_rule[OF s']
  have "optimal_order s' = 5 \<and> optimum_performance s' = (5, 5) \<and> optimum_parameters s' = 5
       \<and> generalization_failures s' = 0"
    unfolding toy_initial rnd perf par tol
    by (simp add: toy_select[unfolded One_nat_def] b)
  with s' show ?thesis by blast
qed

theorem generalization_failures_cumulative_witness:
  "\<exists>s s'. order_iterate (toy_order_oracle (3/4) (\<lambda>n. (1, 1))) (toy_annealing 2 11 10) 2
            (order_initial (toy_order_oracle (3/4) (\<lambda>n. (1, 1))) (toy_annealing 2 11 10)) = Some s
        \<and> order_iteration (toy_order_oracle (3/4) (\<lambda>n. (1, 1))) (toy_annealing 2 11 10) s = Some s'
        \<and> generalization_failures s = 2 \<and> generalization_failures s' = 3
        \<and> end_flag s' \<and> stopping_condition s' = Some MaximumGeneralizationFailures
        \<and> order_loop (toy_order_oracle (3/4) (\<lambda>n. (1, 1))) (toy_annealing 2 11 10) s' = Some s'"
proof -
  let ?orc = "toy_order_oracle (3/4) (\<lambda>n. (1, 1))"
  let ?cfg = "toy_annealing 2 11 10"
  let ?s2 = "\<lparr>iterations = 2, end_flag = False, elapsed_time = 2, stopping_condition = None,
      optimal_order = 8, optimum_performance = (1, 1), optimum_parameters = 8,
      generalization_failures = 2, temperature = 1/4, draws = 5,
      performance_data = [(8, 1), (9, 1), (9, 1)],
      generalization_performance_data = [(8, 1), (9, 1), (9, 1)],
      parameters_data = []\<rparr> :: nat annealing_state"
  let ?s3 = "\<lparr>iterations = 3, end_flag = True, elapsed_time = 3,
      stopping_condition = Some MaximumGeneralizationFailures,
      optimal_order = 8, optimum_performance = (1, 1), optimum_parameters = 8,
      generalization_failures = 3, temperature = 1/8, draws = 7,
      performance_data = [(8, 1), (9, 1), (9, 1), (9, 1)],
      generalization_performance_data = [(8, 1), (9, 1), (9, 1), (9, 1)],
      parameters_data = []\<rparr> :: nat annealing_state"
  have "order_iterate ?orc ?cfg (Suc (Suc 0)) (order_initial ?orc ?cfg) = Some ?s2"
    unfolding toy_reject_initial
    by (simp add: toy_reject_1[unfolded One_nat_def] toy_reject_2[unfolded One_nat_def])
  then have it: "order_iterate ?orc ?cfg 2 (order_initial ?orc ?cfg) = Some ?s2"
    by (simp add: numeral_2_eq_2)
  have ne: "\<not> end_flag ?s2" by simp
  have step: "order_iteration ?orc ?cfg ?s2 = Some ?s3" by (rule toy_reject_3)
  have cfg: "minimum_temperature ?cfg = 1/1000" "maximum_time ?cfg = 1000"
    "generalization_performance_goal ?cfg = 0" "maximum_generalization_failures ?cfg = 3"
    by (simp_all add: toy_annealing_def)
  from generalization_failures_cumulative[OF it ne step]
  have "end_flag ?s3 \<and> stopping_condition ?s3 = Some MaximumGeneralizationFailures
        \<and> order_loop ?orc ?cfg ?s3 = Some ?s3"
    unfolding cfg by simp
  with it step show ?thesis by (intro exI[of _ ?s2] exI[of _ ?s3]) simp
qed

text \<open>Claim C7, at a failing input. With \<open>minimum_order = 10\<close>, \<open>maximum_order = 13\<close> and a
  random source that returns 1/4, the first optimal order is 10, and the candidate of the
  first pass is 9, below \<open>minimum_order\<close>, and it is accepted as the new optimal order: the
  lower bound of the window is \<open>optimal_order - 1 = 9\<close>, because the test that guards it
  compares \<open>optimal_order\<close>, and not its distance to \<open>minimum_order\<close>, with the radius.\<close>

theorem candidate_below_minimum_order:
  "optimal_order (order_initial (toy_order_oracle (1/4) (\<lambda>n. (1, 1))) (toy_annealing 10 13 10)) = 10
   \<and> lower_bound (toy_annealing 10 13 10) 10 = 9 \<and> upper_bound (toy_annealing 10 13 10) 10 = 11
   \<and> select_order (toy_annealing 10 13 10)
        (calculate_random_uniform (toy_order_oracle (1/4) (\<lambda>n. (1, 1)))) 10 1 = Some (9, 2)
   \<and> map_option optimal_order
        (order_iteration (toy_order_oracle (1/4) (\<lambda>n. (1, 1))) (toy_annealing 10 13 10)
           (order_initial (toy_order_oracle (1/4) (\<lambda>n. (1, 1))) (toy_annealing 10 13 10)))
      = Some 9
   \<and> minimum_order (toy_annealing 10 13 10) = 10"
  by (simp add: order_initial_def order_history_def order_eval)

section \<open>Properties of the setters\<close>

text \<open>Claim C8, as amended. When the library is compiled with \<^verbatim>\<open>__OPENNN_DEBUG__\<close>,
  \<open>set_cooling_rate\<close> throws a logic error for every value outside \<open>(0,1)\<close>, so for
  \<open>1\<close>, and \<open>set_minimum_inputs_number\<close> throws one for \<open>0\<close>, and the object is then left
  as it was. Compiled without the macro, both setters store whatever they are given.\<close>

theorem setters_validate_when_debug:
  "set_cooling_rate debug c this
     = (if debug \<and> \<not> (0 < c \<and> c < 1) then (Some LogicError, this)
        else (None, this\<lparr>cooling_rate := c\<rparr>))
   \<and> set_minimum_inputs_number debug n that
     = (if debug \<and> n = 0 then (Some LogicError, that)
        else (None, that\<lparr>minimum_inputs_number := n\<rparr>))"
  by (auto simp: set_cooling_rate_def set_minimum_inputs_number_def)

theorem setters_validate_when_debug_witness:
  "set_cooling_rate True 1 (toy_annealing 2 11 10) = (Some LogicError, toy_annealing 2 11 10)
   \<and> set_minimum_inputs_number True 0 (toy_pruning 10 0) = (Some LogicError, toy_pruning 10 0)"
  using setters_validate_when_debug[of True 1 "toy_annealing 2 11 10" 0 "toy_pruning 10 0"]
  by simp

theorem setters_unchecked_without_debug:
  "set_cooling_rate False 1 (toy_annealing 2 11 10)
     = (None, (toy_annealing 2 11 10)\<lparr>cooling_rate := 1\<rparr>)
   \<and> cooling_rate (snd (set_cooling_rate False 1 (toy_annealing 2 11 10))) = 1
   \<and> set_minimum_inputs_number False 0 (toy_pruning 10 0)
     = (None, (toy_pruning 10 0)\<lparr>minimum_inputs_number := 0\<rparr>)
   \<and> minimum_inputs_number (snd (set_minimum_inputs_number False 0 (toy_pruning 10 0))) = 0"
  by (simp add: set_cooling_rate_def set_minimum_inputs_number_def)

section \<open>Properties of the pruning search\<close>

lemma pruning_history_fields [simp]:
  "iterations (pruning_history this row s) = iterations s"
  "end_flag (pruning_history this row s) = end_flag s"
  "elapsed_time (pruning_history this row s) = elapsed_time s"
  "stopping_condition (pruning_history this row s) = stopping_condition s"
  "world (pruning_history this row s) = world s"
  "current_inputs (pruning_history this row s) = current_inputs s"
  "error_ratios (pruning_history this row s) = error_ratios s"
  "final (pruning_history this row s) = final s"
  "current_training_performance (pruning_history this row s) = current_training_performance s"
  "current_selection_performance (pruning_history this row s) = current_selection_performance s"
  by (simp_all add: pruning_history_def)

lemma stop_with_pruning_fields [simp]:
  "world (stop_with c s) = world s"
  "current_inputs (stop_with c s) = current_inputs s"
  "error_ratios (stop_with c s) = error_ratios s"
  "final (stop_with c s) = final s"
  "current_training_performance (stop_with c s) = current_training_performance s"
  "current_selection_performance (stop_with c s) = current_selection_performance s"
  by (simp_all add: stop_with_def split: option.splits)

lemma pruning_finish_fields:
  "iterations (pruning_finish orc this ratios w best s) = iterations s + 1"
  "elapsed_time (pruning_finish orc this ratios w best s) = difftime orc (iterations s + 1)"
  "final (pruning_finish orc this ratios w best s) = final s"
  "error_ratios (pruning_finish orc this ratios w best s) = ratios[best := sentinel]"
  "current_inputs (pruning_finish orc this ratios w best s)
     = fst (prune_best orc (current_selection_performance s) ratios best (current_inputs s, w))"
  "world (pruning_finish orc this ratios w best s)
     = snd (prune_best orc (current_selection_performance s) ratios best (current_inputs s, w))"
  "current_selection_performance (pruning_finish orc this ratios w best s)
     = calculate_selection_error orc
         (snd (prune_best orc (current_selection_performance s) ratios best (current_inputs s, w)))"
  "current_training_performance (pruning_finish orc this ratios w best s)
     = calculate_performance orc
         (snd (prune_best orc (current_selection_performance s) ratios best (current_inputs s, w)))"
  by (simp_all add: pruning_finish_def Let_def)


lemma pruning_iteration_Inr:
  assumes "pruning_iteration orc this s = Inr s'"
  obtains index ratios w best where
    "evaluate_inputs orc s = Inr (index, ratios, w)"
    "calculate_minimal_index ratios = Inr best"
    "s' = pruning_finish orc this ratios w best s"
  using assms by (auto simp: pruning_iteration_def split: sum.splits prod.splits)

lemma prune_best_cases:
  "prune_best orc c ratios best (inputs, w) =
     (if ratios ! best < c
      then (inputs[best := False],
            prune_input orc (network_index ratios best) (set_unused orc best w))
      else (inputs, w))"
  by (simp add: prune_best_def)

text \<open>Every pass of the \<^verbatim>\<open>for\<close> loop ends with \<^verbatim>\<open>set_parameters(current_parameters)\<close>:
  when the collaborator gives back the parameters it was set, the parameters after each
  exploratory evaluation are the snapshot.\<close>

lemma evaluate_input_restores_parameters:
  assumes "evaluate_input orc current_parameters i (index, ratios, w) = Inr (index', ratios', w')"
  shows "w' = set_parameters orc current_parameters (grow_input orc (prune_input orc i w))"
    and "(\<And>p x. arrange_parameters orc (set_parameters orc p x) = p) \<Longrightarrow>
         arrange_parameters orc w' = current_parameters"
  using assms by (auto simp: evaluate_input_def split: if_splits)

lemma minimal_index_fold:
  "1 \<le> k \<Longrightarrow> k \<le> length v \<Longrightarrow>
   fold (\<lambda>i m. if v ! i < v ! m then i else m) [1..<k] 0 < k
   \<and> (\<forall>j<k. v ! fold (\<lambda>i m. if v ! i < v ! m then i else m) [1..<k] 0 \<le> v ! j)
   \<and> (\<forall>j<fold (\<lambda>i m. if v ! i < v ! m then i else m) [1..<k] 0.
         v ! fold (\<lambda>i m. if v ! i < v ! m then i else m) [1..<k] 0 < (v ! j :: real))"
proof (induction k)
  case 0
  then show ?case by simp
next
  case (Suc k)
  show ?case
  proof (cases "k = 0")
    case True
    then show ?thesis by simp
  next
    case False
    then have k: "1 \<le> k" "k \<le> length v" using Suc.prems by simp_all
    define m where "m = fold (\<lambda>i m. if v ! i < v ! m then i else m) [1..<k] 0"
    have IH: "m < k" "\<forall>j<k. v ! m \<le> v ! j" "\<forall>j<m. v ! m < v ! j"
      using Suc.IH[OF k] unfolding m_def by simp_all
    have step: "fold (\<lambda>i m. if v ! i < v ! m then i else m) [1..<Suc k] 0
        = (if v ! k < v ! m then k else m)"
      using k by (simp add: m_def)
    show ?thesis
    proof (cases "v ! k < v ! m")
      case True
      have "\<forall>j<Suc k. v ! k \<le> v ! j"
      proof (intro allI impI)
        fix j assume "j < Suc k"
        show "v ! k \<le> v ! j"
        proof (cases "j = k")
          case True then show ?thesis by simp
        next
          case False
          with \<open>j < Suc k\<close> have "j < k" by simp
          with IH(2) have "v ! m \<le> v ! j" by simp
          with True show ?thesis by simp
        qed
      qed
      moreover have "\<forall>j<k. v ! k < v ! j"
      proof (intro allI impI)
        fix j assume "j < k"
        with IH(2) have "v ! m \<le> v ! j" by simp
        with True show "v ! k < v ! j" by simp
      qed
      ultimately show ?thesis unfolding step using True by simp
    next
      case False
      have "\<forall>j<Suc k. v ! m \<le> v ! j"
      proof (intro allI impI)
        fix j assume "j < Suc k"
        show "v ! m \<le> v ! j"
        proof (cases "j = k")
          case True with False show ?thesis by simp
        next
          case neq: False
          with \<open>j < Suc k\<close> have "j < k" by simp
          with IH(2) show ?thesis by simp
        qed
      qed
      with IH(1,3) False show ?thesis unfolding step by simp
    qed
  qed
qed

lemma calculate_minimal_index_first_minimum:
  assumes "calculate_minimal_index v = Inr best"
  shows "best < length v \<and> (\<forall>j<length v. v ! best \<le> v ! j) \<and> (\<forall>j<best. v ! best < v ! j)"
proof -
  from assms have ne: "v \<noteq> []"
    and best: "best = fold (\<lambda>i m. if v ! i < v ! m then i else m) [1..<length v] 0"
    by (auto simp: calculate_minimal_index_def split: if_splits)
  from ne have "1 \<le> length v" by (cases v) simp_all
  from minimal_index_fold[OF this order_refl] show ?thesis
    unfolding best by simp
qed

text \<open>Claim C1, as amended. In a pass through the body, the mask and the network change
  only when the first minimal entry of the score table, as the evaluation pass of that
  iteration left it, is strictly below the selection error current at the start of the
  iteration; then exactly the mask entry of that position is cleared and one network input
  is pruned, and otherwise mask and network stay as the evaluation pass left them. The
  selection error recorded after the pass is what the collaborator returns for the model
  as it then is; the code does not compare it with the previous one.\<close>

theorem acceptance_soundness:
  assumes "pruning_iteration orc this s = Inr s'"
  shows "\<exists>index ratios w best.
      evaluate_inputs orc s = Inr (index, ratios, w)
    \<and> calculate_minimal_index ratios = Inr best
    \<and> best < length ratios \<and> (\<forall>j<length ratios. ratios ! best \<le> ratios ! j)
    \<and> (\<forall>j<best. ratios ! best < ratios ! j)
    \<and> (if ratios ! best < current_selection_performance s
        then current_inputs s' = (current_inputs s)[best := False]
           \<and> world s' = prune_input orc (network_index ratios best) (set_unused orc best w)
        else current_inputs s' = current_inputs s \<and> world s' = w)
    \<and> (\<forall>p. current_inputs s' ! p \<noteq> current_inputs s ! p \<longrightarrow>
          p = best \<and> ratios ! p < current_selection_performance s)
    \<and> current_selection_performance s' = calculate_selection_error orc (world s')"
proof -
  from assms obtain index ratios w best where
    ev: "evaluate_inputs orc s = Inr (index, ratios, w)"
    and mi: "calculate_minimal_index ratios = Inr best"
    and s': "s' = pruning_finish orc this ratios w best s"
    by (rule pruning_iteration_Inr)
  have "p = best \<and> ratios ! p < current_selection_performance s"
    if "current_inputs s' ! p \<noteq> current_inputs s ! p" for p
  proof (cases "p = best")
    case True
    with that show ?thesis
      unfolding s' pruning_finish_fields prune_best_cases by (auto split: if_splits)
  next
    case False
    with that show ?thesis
      unfolding s' pruning_finish_fields prune_best_cases by (auto split: if_splits)
  qed
  then have "\<forall>p. current_inputs s' ! p \<noteq> current_inputs s ! p \<longrightarrow>
          p = best \<and> ratios ! p < current_selection_performance s"
    by blast
  moreover have "if ratios ! best < current_selection_performance s
        then current_inputs s' = (current_inputs s)[best := False]
           \<and> world s' = prune_input orc (network_index ratios best) (set_unused orc best w)
        else current_inputs s' = current_inputs s \<and> world s' = w"
    unfolding s' pruning_finish_fields prune_best_cases by simp
  moreover have "current_selection_performance s' = calculate_selection_error orc (world s')"
    unfolding s' pruning_finish_fields by simp
  ultimately show ?thesis
    using ev mi calculate_minimal_index_first_minimum[OF mi] by blast
qed















subsection \<open>Runs of the pruning search on the concrete collaborators\<close>

lemmas pruning_eval = pruning_iteration_def pruning_finish_def pruning_history_def
  evaluate_inputs_def evaluate_step_def evaluate_input_def prune_best_def network_index_def
  calculate_minimal_index_def count_occurrences_def pruning_stopping_criteria_def stop_with_def
  skip_sentinels.simps toy_oracle_def toy_error_def toy_pruning_def sentinel_def Let_def upt_rec

lemmas pruning_initial_eval = pruning_initial_def pruning_history_def toy_oracle_def
  toy_pruning_def Let_def numeral_2_eq_2 numeral_3_eq_3

lemma c1_initial:
  "pruning_initial (toy_oracle (5, 5) [1, 4] 10) (toy_pruning 10 0) \<lparr>live = [0, 1], unused = []\<rparr>
   = \<lparr>iterations = 0, end_flag = False, elapsed_time = 0, stopping_condition = None,
      world = \<lparr>live = [0, 1], unused = []\<rparr>, current_inputs = [True, True],
      error_ratios = [0, 0], final = (5, 5),
      current_training_performance = 5, current_selection_performance = 5,
      inputs_data = [[True, True]], training_performance_data = [],
      selection_performance_data = [5], pruning_parameters_data = []\<rparr>"
  by (simp add: pruning_initial_eval)

lemma c1_step:
  "pruning_iteration (toy_oracle (5, 5) [1, 4] 10) (toy_pruning 10 0)
     \<lparr>iterations = 0, end_flag = False, elapsed_time = 0, stopping_condition = None,
      world = \<lparr>live = [0, 1], unused = []\<rparr>, current_inputs = [True, True],
      error_ratios = [0, 0], final = (5, 5),
      current_training_performance = 5, current_selection_performance = 5,
      inputs_data = [[True, True]], training_performance_data = [],
      selection_performance_data = [5], pruning_parameters_data = []\<rparr>
   = Inr \<lparr>iterations = 1, end_flag = True, elapsed_time = 1,
      stopping_condition = Some MinimumInputs,
      world = \<lparr>live = [0], unused = [1]\<rparr>, current_inputs = [True, False],
      error_ratios = [4, sentinel], final = (5, 5),
      current_training_performance = 11, current_selection_performance = 11,
      inputs_data = [[True, True], [True, False]], training_performance_data = [],
      selection_performance_data = [5, 11], pruning_parameters_data = []\<rparr>"
  by (simp add: pruning_eval)

theorem accepted_removal_raises_selection_error:
  "current_selection_performance
     (pruning_initial (toy_oracle (5, 5) [1, 4] 10) (toy_pruning 10 0)
        \<lparr>live = [0, 1], unused = []\<rparr>) = 5
   \<and> pruning_iteration (toy_oracle (5, 5) [1, 4] 10) (toy_pruning 10 0)
       (pruning_initial (toy_oracle (5, 5) [1, 4] 10) (toy_pruning 10 0)
          \<lparr>live = [0, 1], unused = []\<rparr>)
     = Inr \<lparr>iterations = 1, end_flag = True, elapsed_time = 1,
        stopping_condition = Some MinimumInputs,
        world = \<lparr>live = [0], unused = [1]\<rparr>, current_inputs = [True, False],
        error_ratios = [4, sentinel], final = (5, 5),
        current_training_performance = 11, current_selection_performance = 11,
        inputs_data = [[True, True], [True, False]], training_performance_data = [],
        selection_performance_data = [5, 11], pruning_parameters_data = []\<rparr>"
  unfolding c1_initial c1_step by simp

theorem acceptance_soundness_witness:
  "\<exists>s'. pruning_iteration (toy_oracle (5, 5) [1, 4] 10) (toy_pruning 10 0)
           (pruning_initial (toy_oracle (5, 5) [1, 4] 10) (toy_pruning 10 0)
              \<lparr>live = [0, 1], unused = []\<rparr>) = Inr s'
       \<and> evaluate_inputs (toy_oracle (5, 5) [1, 4] 10)
           (pruning_initial (toy_oracle (5, 5) [1, 4] 10) (toy_pruning 10 0)
              \<lparr>live = [0, 1], unused = []\<rparr>) = Inr (0, [4, 1], \<lparr>live = [0, 1], unused = []\<rparr>)
       \<and> calculate_minimal_index [4, 1] = Inr 1
       \<and> current_inputs s' = [True, False] \<and> world s' = \<lparr>live = [0], unused = [1]\<rparr>"
proof -
  let ?orc = "toy_oracle (5, 5) [1, 4] 10"
  let ?cfg = "toy_pruning 10 0"
  let ?s0 = "pruning_initial ?orc ?cfg \<lparr>live = [0, 1], unused = []\<rparr>"
  have ev: "evaluate_inputs ?orc ?s0 = Inr (0, [4, 1], \<lparr>live = [0, 1], unused = []\<rparr>)"
    unfolding c1_initial by (simp add: pruning_eval)
  have mi: "calculate_minimal_index [4, 1] = Inr 1"
    by (simp add: calculate_minimal_index_def upt_rec)
  have ni: "network_index [4, 1] 1 = 1"
    by (simp add: network_index_def upt_rec sentinel_def)
  obtain s' where s': "pruning_iteration ?orc ?cfg ?s0 = Inr s'"
    unfolding c1_initial using c1_step by blast
  have c: "current_selection_performance ?s0 = 5" "current_inputs ?s0 = [True, True]"
    unfolding c1_initial by simp_all
  from acceptance_soundness[OF s']
  have "current_inputs s' = [True, False] \<and> world s' = \<lparr>live = [0], unused = [1]\<rparr>"
    unfolding ev c by (simp add: mi[unfolded One_nat_def] ni[unfolded One_nat_def] toy_oracle_def)
  with s' ev mi show ?thesis by blast
qed

lemma c3_initial:
  "pruning_initial (toy_oracle (8, 8) [1, 4, 3] 0) (toy_pruning 10 6) \<lparr>live = [0, 1, 2], unused = []\<rparr>
   = \<lparr>iterations = 0, end_flag = False, elapsed_time = 0, stopping_condition = None,
      world = \<lparr>live = [0, 1, 2], unused = []\<rparr>, current_inputs = [True, True, True],
      error_ratios = [0, 0, 0], final = (8, 8),
      current_training_performance = 8, current_selection_performance = 8,
      inputs_data = [[True, True, True]],
      training_performance_data = [], selection_performance_data = [8],
      pruning_parameters_data = []\<rparr>"
  by (simp add: pruning_initial_eval)

lemma c3_step:
  "pruning_iteration (toy_oracle (8, 8) [1, 4, 3] 0) (toy_pruning 10 6)
     \<lparr>iterations = 0, end_flag = False, elapsed_time = 0, stopping_condition = None,
      world = \<lparr>live = [0, 1, 2], unused = []\<rparr>, current_inputs = [True, True, True],
      error_ratios = [0, 0, 0], final = (8, 8),
      current_training_performance = 8, current_selection_performance = 8,
      inputs_data = [[True, True, True]],
      training_performance_data = [], selection_performance_data = [8],
      pruning_parameters_data = []\<rparr>
   = Inr \<lparr>iterations = 1, end_flag = True, elapsed_time = 1, stopping_condition = Some AlgorithmFinished,
      world = \<lparr>live = [0, 2], unused = [1]\<rparr>, current_inputs = [True, False, True],
      error_ratios = [7, sentinel, 5], final = (8, 8),
      current_training_performance = 4, current_selection_performance = 4,
      inputs_data = [[True, True, True], [True, False, True]],
      training_performance_data = [], selection_performance_data = [8, 4],
      pruning_parameters_data = []\<rparr>"
  by (simp add: pruning_eval)

text \<open>Claim C3, at a failing input. Three inputs; the initial evaluation reports the
  selection error 8, the goal is 6. The first pass prunes input 1 and records the
  selection error 4, below the goal, at elapsed time 1 of 1000 allowed: the criterion of
  the goal does not fire, because it reads \<open>final[1]\<close>, the error of the initial
  evaluation, which the loop never updates, and the run ends with the reason
  \<open>AlgorithmFinished\<close> instead.\<close>

theorem goal_compared_with_initial_evaluation:
  "pruning_iteration (toy_oracle (8, 8) [1, 4, 3] 0) (toy_pruning 10 6)
     (pruning_initial (toy_oracle (8, 8) [1, 4, 3] 0) (toy_pruning 10 6) \<lparr>live = [0, 1, 2], unused = []\<rparr>)
   = Inr \<lparr>iterations = 1, end_flag = True, elapsed_time = 1, stopping_condition = Some AlgorithmFinished,
      world = \<lparr>live = [0, 2], unused = [1]\<rparr>, current_inputs = [True, False, True],
      error_ratios = [7, sentinel, 5], final = (8, 8),
      current_training_performance = 4, current_selection_performance = 4,
      inputs_data = [[True, True, True], [True, False, True]],
      training_performance_data = [], selection_performance_data = [8, 4],
      pruning_parameters_data = []\<rparr>
   \<and> selection_performance_goal (toy_pruning 10 6) = 6 \<and> maximum_time (toy_pruning 10 6) = 1000"
  unfolding c3_initial c3_step by (simp add: toy_pruning_def)

lemma c4_initial:
  "pruning_initial (toy_oracle (10, 10) [1, 4, 3, 2] 1) (toy_pruning 10 0) \<lparr>live = [0, 1, 2, 3], unused = []\<rparr>
   = \<lparr>iterations = 0, end_flag = False, elapsed_time = 0, stopping_condition = None,
      world = \<lparr>live = [0, 1, 2, 3], unused = []\<rparr>, current_inputs = [True, True, True, True],
      error_ratios = [0, 0, 0, 0], final = (10, 10),
      current_training_performance = 10, current_selection_performance = 10,
      inputs_data = [[True, True, True, True]],
      training_performance_data = [], selection_performance_data = [10],
      pruning_parameters_data = []\<rparr>"
  by (simp add: pruning_initial_eval)

lemma c4_step1:
  "pruning_iteration (toy_oracle (10, 10) [1, 4, 3, 2] 1) (toy_pruning 10 0)
     \<lparr>iterations = 0, end_flag = False, elapsed_time = 0, stopping_condition = None,
      world = \<lparr>live = [0, 1, 2, 3], unused = []\<rparr>, current_inputs = [True, True, True, True],
      error_ratios = [0, 0, 0, 0], final = (10, 10),
      current_training_performance = 10, current_selection_performance = 10,
      inputs_data = [[True, True, True, True]],
      training_performance_data = [], selection_performance_data = [10],
      pruning_parameters_data = []\<rparr>
   = Inr \<lparr>iterations = 1, end_flag = False, elapsed_time = 1, stopping_condition = None,
      world = \<lparr>live = [0, 2, 3], unused = [1]\<rparr>, current_inputs = [True, False, True, True],
      error_ratios = [9, sentinel, 7, 8], final = (10, 10),
      current_training_performance = 7, current_selection_performance = 7,
      inputs_data = [[True, True, True, True], [True, False, True, True]],
      training_performance_data = [], selection_performance_data = [10, 7],
      pruning_parameters_data = []\<rparr>"
  by (simp add: pruning_eval)

lemma c4_step2:
  "pruning_iteration (toy_oracle (10, 10) [1, 4, 3, 2] 1) (toy_pruning 10 0)
     \<lparr>iterations = 1, end_flag = False, elapsed_time = 1, stopping_condition = None,
      world = \<lparr>live = [0, 2, 3], unused = [1]\<rparr>, current_inputs = [True, False, True, True],
      error_ratios = [9, sentinel, 7, 8], final = (10, 10),
      current_training_performance = 7, current_selection_performance = 7,
      inputs_data = [[True, True, True, True], [True, False, True, True]],
      training_performance_data = [], selection_performance_data = [10, 7],
      pruning_parameters_data = []\<rparr>
   = Inr \<lparr>iterations = 2, end_flag = False, elapsed_time = 2, stopping_condition = None,
      world = \<lparr>live = [0, 3], unused = [2, 1]\<rparr>, current_inputs = [True, False, False, True],
      error_ratios = [6, sentinel, sentinel, 5], final = (10, 10),
      current_training_performance = 5, current_selection_performance = 5,
      inputs_data = [[True, True, True, True], [True, False, True, True], [True, False, False, True]],
      training_performance_data = [], selection_performance_data = [10, 7, 5],
      pruning_parameters_data = []\<rparr>"
  by (simp add: pruning_eval)

lemma c4_evaluate:
  "evaluate_inputs (toy_oracle (10, 10) [1, 4, 3, 2] 1)
     \<lparr>iterations = 2, end_flag = False, elapsed_time = 2, stopping_condition = None,
      world = \<lparr>live = [0, 3], unused = [2, 1]\<rparr>, current_inputs = [True, False, False, True],
      error_ratios = [6, sentinel, sentinel, 5], final = (10, 10),
      current_training_performance = 5, current_selection_performance = 5,
      inputs_data = [[True, True, True, True], [True, False, True, True], [True, False, False, True]],
      training_performance_data = [], selection_performance_data = [10, 7, 5],
      pruning_parameters_data = []\<rparr>
   = Inr (1, [4, sentinel, 3, 5], \<lparr>live = [0, 3], unused = [2, 1]\<rparr>)"
  by (simp add: pruning_eval)

text \<open>Claim C4, at a failing input. Four inputs; the first two passes prune the inputs 1
  and 2, so the table enters the third pass as \<open>[6, 1e20, 1e20, 5]\<close> with the inputs 0
  and 3 active. The third evaluation pass steps over one mark only: it writes the error
  of the model without input 3, which is 3, over the mark at position 2, and leaves at
  position 3 the entry 5 of the pass before.\<close>

theorem evaluation_pass_overwrites_sentinel:
  "pruning_iterate (toy_oracle (10, 10) [1, 4, 3, 2] 1) (toy_pruning 10 0) 2
     (pruning_initial (toy_oracle (10, 10) [1, 4, 3, 2] 1) (toy_pruning 10 0) \<lparr>live = [0, 1, 2, 3], unused = []\<rparr>)
   = Inr \<lparr>iterations = 2, end_flag = False, elapsed_time = 2, stopping_condition = None,
      world = \<lparr>live = [0, 3], unused = [2, 1]\<rparr>, current_inputs = [True, False, False, True],
      error_ratios = [6, sentinel, sentinel, 5], final = (10, 10),
      current_training_performance = 5, current_selection_performance = 5,
      inputs_data = [[True, True, True, True], [True, False, True, True], [True, False, False, True]],
      training_performance_data = [], selection_performance_data = [10, 7, 5],
      pruning_parameters_data = []\<rparr>
   \<and> evaluate_inputs (toy_oracle (10, 10) [1, 4, 3, 2] 1)
     \<lparr>iterations = 2, end_flag = False, elapsed_time = 2, stopping_condition = None,
      world = \<lparr>live = [0, 3], unused = [2, 1]\<rparr>, current_inputs = [True, False, False, True],
      error_ratios = [6, sentinel, sentinel, 5], final = (10, 10),
      current_training_performance = 5, current_selection_performance = 5,
      inputs_data = [[True, True, True, True], [True, False, True, True], [True, False, False, True]],
      training_performance_data = [], selection_performance_data = [10, 7, 5],
      pruning_parameters_data = []\<rparr>
   = Inr (1, [4, sentinel, 3, 5], \<lparr>live = [0, 3], unused = [2, 1]\<rparr>)
   \<and> calculate_selection_error (toy_oracle (10, 10) [1, 4, 3, 2] 1)
       (prune_input (toy_oracle (10, 10) [1, 4, 3, 2] 1) 1 \<lparr>live = [0, 3], unused = [2, 1]\<rparr>) = 3"
proof -
  have "pruning_iterate (toy_oracle (10, 10) [1, 4, 3, 2] 1) (toy_pruning 10 0) (Suc (Suc 0))
     \<lparr>iterations = 0, end_flag = False, elapsed_time = 0, stopping_condition = None,
      world = \<lparr>live = [0, 1, 2, 3], unused = []\<rparr>, current_inputs = [True, True, True, True],
      error_ratios = [0, 0, 0, 0], final = (10, 10),
      current_training_performance = 10, current_selection_performance = 10,
      inputs_data = [[True, True, True, True]],
      training_performance_data = [], selection_performance_data = [10],
      pruning_parameters_data = []\<rparr>
   = Inr \<lparr>iterations = 2, end_flag = False, elapsed_time = 2, stopping_condition = None,
      world = \<lparr>live = [0, 3], unused = [2, 1]\<rparr>, current_inputs = [True, False, False, True],
      error_ratios = [6, sentinel, sentinel, 5], final = (10, 10),
      current_training_performance = 5, current_selection_performance = 5,
      inputs_data = [[True, True, True, True], [True, False, True, True], [True, False, False, True]],
      training_performance_data = [], selection_performance_data = [10, 7, 5],
      pruning_parameters_data = []\<rparr>"
    by (simp add: c4_step1[unfolded One_nat_def] c4_step2[unfolded One_nat_def])
  then have "pruning_iterate (toy_oracle (10, 10) [1, 4, 3, 2] 1) (toy_pruning 10 0) 2
     \<lparr>iterations = 0, end_flag = False, elapsed_time = 0, stopping_condition = None,
      world = \<lparr>live = [0, 1, 2, 3], unused = []\<rparr>, current_inputs = [True, True, True, True],
      error_ratios = [0, 0, 0, 0], final = (10, 10),
      current_training_performance = 10, current_selection_performance = 10,
      inputs_data = [[True, True, True, True]],
      training_performance_data = [], selection_performance_data = [10],
      pruning_parameters_data = []\<rparr>
   = Inr \<lparr>iterations = 2, end_flag = False, elapsed_time = 2, stopping_condition = None,
      world = \<lparr>live = [0, 3], unused = [2, 1]\<rparr>, current_inputs = [True, False, False, True],
      error_ratios = [6, sentinel, sentinel, 5], final = (10, 10),
      current_training_performance = 5, current_selection_performance = 5,
      inputs_data = [[True, True, True, True], [True, False, True, True], [True, False, False, True]],
      training_performance_data = [], selection_performance_data = [10, 7, 5],
      pruning_parameters_data = []\<rparr>"
    by (simp add: numeral_2_eq_2)
  moreover have "calculate_selection_error (toy_oracle (10, 10) [1, 4, 3, 2] 1)
       (prune_input (toy_oracle (10, 10) [1, 4, 3, 2] 1) 1 \<lparr>live = [0, 3], unused = [2, 1]\<rparr>) = 3"
    by (simp add: toy_oracle_def toy_error_def)
  ultimately show ?thesis
    unfolding c4_initial c4_evaluate by simp
qed

lemma c10_initial:
  "pruning_initial (toy_oracle (1, 1) [1, 4] 0) (toy_pruning 10 0) \<lparr>live = [0, 1], unused = []\<rparr>
   = \<lparr>iterations = 0, end_flag = False, elapsed_time = 0, stopping_condition = None,
      world = \<lparr>live = [0, 1], unused = []\<rparr>, current_inputs = [True, True],
      error_ratios = [0, 0], final = (1, 1),
      current_training_performance = 1, current_selection_performance = 1,
      inputs_data = [[True, True]],
      training_performance_data = [], selection_performance_data = [1],
      pruning_parameters_data = []\<rparr>"
  by (simp add: pruning_initial_eval)

lemma c10_step1:
  "pruning_iteration (toy_oracle (1, 1) [1, 4] 0) (toy_pruning 10 0)
     \<lparr>iterations = 0, end_flag = False, elapsed_time = 0, stopping_condition = None,
      world = \<lparr>live = [0, 1], unused = []\<rparr>, current_inputs = [True, True],
      error_ratios = [0, 0], final = (1, 1),
      current_training_performance = 1, current_selection_performance = 1,
      inputs_data = [[True, True]],
      training_performance_data = [], selection_performance_data = [1],
      pruning_parameters_data = []\<rparr>
   = Inr \<lparr>iterations = 1, end_flag = False, elapsed_time = 1, stopping_condition = None,
      world = \<lparr>live = [0, 1], unused = []\<rparr>, current_inputs = [True, True],
      error_ratios = [4, sentinel], final = (1, 1),
      current_training_performance = 5, current_selection_performance = 5,
      inputs_data = [[True, True], [True, True]],
      training_performance_data = [], selection_performance_data = [1, 5],
      pruning_parameters_data = []\<rparr>"
  by (simp add: pruning_eval)

lemma c10_step2:
  "pruning_iteration (toy_oracle (1, 1) [1, 4] 0) (toy_pruning 10 0)
     \<lparr>iterations = 1, end_flag = False, elapsed_time = 1, stopping_condition = None,
      world = \<lparr>live = [0, 1], unused = []\<rparr>, current_inputs = [True, True],
      error_ratios = [4, sentinel], final = (1, 1),
      current_training_performance = 5, current_selection_performance = 5,
      inputs_data = [[True, True], [True, True]],
      training_performance_data = [], selection_performance_data = [1, 5],
      pruning_parameters_data = []\<rparr>
   = Inl OutOfRange"
  by (simp add: pruning_eval)

text \<open>Claim C10, at a failing input. Two inputs; the initial evaluation reports the
  selection error 1, the removal errors are 4 and 1, and the selection error of the
  unchanged model is then measured as 5. The first pass prunes nothing (1 is not below
  1), marks position 1 and goes on (1 is below 5); in the second pass both inputs are
  still active, and the evaluation of the second one writes \<open>error_ratios[2]\<close> in a
  table of length 2.\<close>

theorem error_ratios_subscript_out_of_range:
  "perform_inputs_selection (toy_oracle (1, 1) [1, 4] 0) (toy_pruning 10 0) \<lparr>live = [0, 1], unused = []\<rparr> = Inl OutOfRange"
  unfolding perform_inputs_selection_def c10_initial
  by (simp add: pruning_loop.simps c10_step1[unfolded One_nat_def] c10_step2[unfolded One_nat_def])

lemma c9_initial:
  "pruning_initial (toy_oracle (5, 5) [1, 4] 0) (toy_pruning 0 0) \<lparr>live = [0, 1], unused = []\<rparr>
   = \<lparr>iterations = 0, end_flag = False, elapsed_time = 0, stopping_condition = None,
      world = \<lparr>live = [0, 1], unused = []\<rparr>, current_inputs = [True, True],
      error_ratios = [0, 0], final = (5, 5),
      current_training_performance = 5, current_selection_performance = 5,
      inputs_data = [[True, True]],
      training_performance_data = [], selection_performance_data = [5],
      pruning_parameters_data = []\<rparr>"
  by (simp add: pruning_initial_eval)

lemma c9_step:
  "pruning_iteration (toy_oracle (5, 5) [1, 4] 0) (toy_pruning 0 0)
     \<lparr>iterations = 0, end_flag = False, elapsed_time = 0, stopping_condition = None,
      world = \<lparr>live = [0, 1], unused = []\<rparr>, current_inputs = [True, True],
      error_ratios = [0, 0], final = (5, 5),
      current_training_performance = 5, current_selection_performance = 5,
      inputs_data = [[True, True]],
      training_performance_data = [], selection_performance_data = [5],
      pruning_parameters_data = []\<rparr>
   = Inr \<lparr>iterations = 1, end_flag = True, elapsed_time = 1, stopping_condition = Some MaximumIterations,
      world = \<lparr>live = [0], unused = [1]\<rparr>, current_inputs = [True, False],
      error_ratios = [4, sentinel], final = (5, 5),
      current_training_performance = 1, current_selection_performance = 1,
      inputs_data = [[True, True], [True, False]],
      training_performance_data = [], selection_performance_data = [5, 1],
      pruning_parameters_data = []\<rparr>"
  by (simp add: pruning_eval)

text \<open>The criteria are tested after the body: with \<open>maximum_iterations_number = 0\<close> the
  body still runs once.\<close>

lemma one_pass_with_zero_maximum:
  "perform_inputs_selection (toy_oracle (5, 5) [1, 4] 0) (toy_pruning 0 0) \<lparr>live = [0, 1], unused = []\<rparr>
   = Inr \<lparr>iterations = 1, end_flag = True, elapsed_time = 1, stopping_condition = Some MaximumIterations,
      world = \<lparr>live = [0], unused = [1]\<rparr>, current_inputs = [True, False],
      error_ratios = [4, sentinel], final = (5, 5),
      current_training_performance = 1, current_selection_performance = 1,
      inputs_data = [[True, True], [True, False]],
      training_performance_data = [], selection_performance_data = [5, 1],
      pruning_parameters_data = []\<rparr>
   \<and> maximum_iterations_number (toy_pruning 0 0) = 0"
proof -
  have "maximum_iterations_number (toy_pruning 0 0) = 0"
    by (simp add: toy_pruning_def)
  then show ?thesis
    unfolding perform_inputs_selection_def c9_initial
    by (simp add: pruning_loop.simps c9_step[unfolded One_nat_def])
qed





end
